theory Spec2Isabelle
  imports Complex_Main
begin

section \<open>Formatted strings\<close>

text \<open>
  \<^verbatim>\<open>TString::Format\<close> and \<^verbatim>\<open>Form\<close> are used with the conversions \<^verbatim>\<open>%d\<close> and
  \<^verbatim>\<open>%s\<close> only. \<^verbatim>\<open>%d\<close> prints a C \<^verbatim>\<open>int\<close> in decimal, with a leading minus sign
  for a negative value.
\<close>

definition digit_char :: "nat \<Rightarrow> char" where
  "digit_char d = ''0123456789'' ! (d mod 10)"

fun Format_nat :: "nat \<Rightarrow> string" where
  "Format_nat n =
     (if n < 10 then [digit_char n] else Format_nat (n div 10) @ [digit_char (n mod 10)])"

declare Format_nat.simps [simp del]

definition Format_d :: "int \<Rightarrow> string" where
  "Format_d i = (if i < 0 then CHR ''-'' # Format_nat (nat (- i)) else Format_nat (nat i))"

text \<open>Conversion of a \<^verbatim>\<open>double\<close> to \<^verbatim>\<open>int\<close> (as in \<^verbatim>\<open>int nTrainSig = 0.8 * nTotEvts\<close>)
  truncates towards zero.\<close>

definition double_to_int :: "real \<Rightarrow> int" where
  "double_to_int x = (if 0 \<le> x then \<lfloor>x\<rfloor> else \<lceil>x\<rceil>)"

section \<open>The training orchestrator \<^verbatim>\<open>TMVA_RNN_Classification\<close>\<close>

text \<open>
  The macro is a straight sequence of calls into ROOT and TMVA. Its model is the list of
  those calls, in order, with their arguments, together with how the function ended.
  What the environment decides is an input: the three build macros, the result of the
  existence test and whether \<^verbatim>\<open>TFile::Open\<close> returns a file. Writes to
  \<^verbatim>\<open>std::cout\<close> are not recorded. The body of the function ends with the closing
  brace after \<^verbatim>\<open>BookMethod\<close>; the statements that follow it in the file
  (\<^verbatim>\<open>TrainAllMethods\<close> and the evaluation) stand outside the function.
\<close>

record env =
  R__HAS_TMVAGPU :: bool
  R__HAS_TMVACPU :: bool
  R__HAS_PYMVA :: bool
  AccessPathName :: "string \<Rightarrow> bool"
  inputFile_opens :: bool
  outputFile_opens :: bool

datatype call =
    Warning string string
  | PyInitialize
  | EnableImplicitMT int
  | Setenv string string
  | Config_Instance
  | Call_MakeTimeData int int int
  | TFile_Open string string
  | Error string string
  | New_Factory string bool string
  | New_DataLoader string
  | Get string
  | AddVariablesArray string int
  | AddSignalTree real
  | AddBackgroundTree real
  | GetListOfVariables
  | PrepareTrainingAndTestTree string string string
  | BookMethod string string string

datatype outcome = Returned_on_error | Reached_end

definition ninput :: int where "ninput = 30"
definition ntime :: int where "ntime = 10"
definition batchSize :: int where "batchSize = 100"
definition maxepochs :: int where "maxepochs = 20"
definition nTotEvts :: int where "nTotEvts = 10000"

definition rnn_types :: "string list" where
  "rnn_types = [''RNN'', ''LSTM'', ''GRU'']"

text \<open>The selection vector computed from \<^verbatim>\<open>use_type\<close>. The body never reads it.\<close>

definition use_rnn_type :: "int \<Rightarrow> bool list" where
  "use_rnn_type use_type =
     (if 0 \<le> use_type \<and> use_type < 3 then [False, False, False][nat use_type := True]
      else [True, True, True])"

definition useGPU :: "env \<Rightarrow> bool" where
  "useGPU e = (if R__HAS_TMVAGPU e then True else False)"

definition archString :: "env \<Rightarrow> string" where
  "archString e = (if useGPU e then ''GPU'' else ''CPU'')"

definition inputFileName :: string where
  "inputFileName = ''time_data_t10_d30.root''"

definition outfileName :: "env \<Rightarrow> string" where
  "outfileName e = ''data_RNN_'' @ archString e @ ''.root''"

definition nTrainSig :: int where
  "nTrainSig = double_to_int (0.8 * real_of_int nTotEvts)"

definition nTrainBkg :: int where
  "nTrainBkg = double_to_int (0.8 * real_of_int nTotEvts)"

definition prepareOptions :: string where
  "prepareOptions =
     ''nTrain_Signal='' @ Format_d nTrainSig @ '':nTrain_Background='' @ Format_d nTrainBkg
       @ '':SplitMode=Random:SplitSeed=100:NormMode=NumEvents:!V:!CalcCorrelations''"

definition rnn_type :: string where
  "rnn_type = rnn_types ! 0"

definition inputLayoutString :: string where
  "inputLayoutString = ''InputLayout='' @ Format_d ntime @ ''|'' @ Format_d ninput"

definition rnnLayout :: string where
  "rnnLayout = rnn_type @ ''|10|'' @ Format_d ninput @ ''|'' @ Format_d ntime @ ''|0|1''"

definition layoutString :: string where
  "layoutString = ''Layout='' @ rnnLayout @ '',RESHAPE|FLAT,DENSE|64|TANH,LINEAR''"

definition trainingString1 :: string where
  "trainingString1 =
     ''LearningRate=1e-3,Momentum=0.0,Repetitions=1,''
       @ ''ConvergenceSteps=5,BatchSize='' @ Format_d batchSize @ '',TestRepetitions=1,''
       @ ''WeightDecay=1e-2,Regularization=None,MaxEpochs='' @ Format_d maxepochs @ '',''
       @ ''Optimizer=ADAM,DropConfig=0.0+0.+0.+0.''"

definition trainingStrategyString :: string where
  "trainingStrategyString = ''TrainingStrategy='' @ trainingString1"

definition rnnOptions :: "env \<Rightarrow> string" where
  "rnnOptions e =
     ''!H:V:ErrorStrategy=CROSSENTROPY:VarTransform=None:''
       @ ''WeightInitialization=XAVIERUNIFORM:ValidationSize=0.2:RandomSeed=1234''
       @ '':'' @ inputLayoutString
       @ '':'' @ layoutString
       @ '':'' @ trainingStrategyString
       @ '':'' @ (''Architecture='' @ archString e)"

definition rnnName :: string where
  "rnnName = ''TMVA_'' @ rnn_type"

definition factory_options :: string where
  "factory_options =
     ''!V:!Silent:Color:DrawProgressBar:Transformations=None:!Correlations:''
       @ ''AnalysisType=Classification:ModelPersistence''"

text \<open>The calls up to and including the attempt to open the input file.\<close>

definition opening_calls :: "env \<Rightarrow> call list" where
  "opening_calls e =
     (let num_threads = (0::int);
          fileExist = \<not> AccessPathName e inputFileName
      in (if R__HAS_TMVAGPU e then []
          else if R__HAS_TMVACPU e then []
          else [Warning ''TMVA_RNN_Classification''
                  (''TMVA is not build with GPU or CPU multi-thread support. ''
                    @ ''Cannot use TMVA Deep Learning for RNN'')])
         @ (if R__HAS_PYMVA e then [PyInitialize] else [])
         @ (if 0 \<le> num_threads
            then EnableImplicitMT num_threads
                 # (if 0 < num_threads then [Setenv ''OMP_NUM_THREADS'' (Format_d num_threads)]
                    else [])
            else [Setenv ''OMP_NUM_THREADS'' ''1''])
         @ [Config_Instance]
         @ (if \<not> fileExist then [Call_MakeTimeData nTotEvts ntime ninput] else [])
         @ [TFile_Open inputFileName []])"

text \<open>The calls after the input file has been opened.\<close>

definition training_setup_calls :: "env \<Rightarrow> call list" where
  "training_setup_calls e =
     [TFile_Open (outfileName e) ''RECREATE'',
      New_Factory ''TMVAClassification'' (outputFile_opens e) factory_options,
      New_DataLoader ''dataset'',
      Get ''sgn'',
      Get ''bkg'']
     @ map (\<lambda>i. AddVariablesArray (''vars_time'' @ Format_d (int i)) ninput) [0..<nat ntime]
     @ [AddSignalTree 1.0,
        AddBackgroundTree 1.0,
        GetListOfVariables,
        PrepareTrainingAndTestTree [] [] prepareOptions,
        BookMethod ''kDL'' rnnName (rnnOptions e)]"

definition TMVA_RNN_Classification :: "env \<Rightarrow> int \<Rightarrow> outcome \<times> call list" where
  "TMVA_RNN_Classification e use_type =
     (let selected = use_rnn_type use_type
      in if \<not> inputFile_opens e
         then (Returned_on_error,
               opening_calls e
               @ [Error ''TMVA_RNN_Classification''
                    (''Error opening input file '' @ inputFileName @ '' - exit'')])
         else (Reached_end, opening_calls e @ training_setup_calls e))"

text \<open>The methods booked by a run: name and option string of each \<^verbatim>\<open>BookMethod\<close>.\<close>

fun booked :: "call list \<Rightarrow> (string \<times> string) list" where
  "booked [] = []"
| "booked (BookMethod t nm opts # cs) = (nm, opts) # booked cs"
| "booked (c # cs) = booked cs"

text \<open>Calls that declare variables, create the factory or the data loader, attach the
  trees, split the data or book a method.\<close>

fun training_side :: "call \<Rightarrow> bool" where
  "training_side (New_Factory a b c) = True"
| "training_side (New_DataLoader a) = True"
| "training_side (Get a) = True"
| "training_side (AddVariablesArray a b) = True"
| "training_side (AddSignalTree a) = True"
| "training_side (AddBackgroundTree a) = True"
| "training_side GetListOfVariables = True"
| "training_side (PrepareTrainingAndTestTree a b c) = True"
| "training_side (BookMethod a b c) = True"
| "training_side c = False"

text \<open>Option strings are lists of \<^verbatim>\<open>key=value\<close> items, separated by a colon at the top
  level and by a comma inside a training strategy.\<close>

fun split_on :: "char \<Rightarrow> string \<Rightarrow> string list" where
  "split_on sep [] = [[]]"
| "split_on sep (c # cs) =
     (if c = sep then [] # split_on sep cs
      else (case split_on sep cs of [] \<Rightarrow> [[c]] | w # ws \<Rightarrow> (c # w) # ws))"

fun strip_prefix :: "string \<Rightarrow> string \<Rightarrow> string option" where
  "strip_prefix [] s = Some s"
| "strip_prefix (p # ps) [] = None"
| "strip_prefix (p # ps) (c # cs) = (if p = c then strip_prefix ps cs else None)"

fun option_value :: "string \<Rightarrow> string list \<Rightarrow> string option" where
  "option_value key [] = None"
| "option_value key (item # items) =
     (case strip_prefix (key @ ''='') item of
        Some v \<Rightarrow> Some v
      | None \<Rightarrow> option_value key items)"

section \<open>The data generator \<^verbatim>\<open>MakeTimeData\<close>\<close>

text \<open>
  Values of type \<^verbatim>\<open>double\<close> and \<^verbatim>\<open>float\<close> are modelled as real numbers and their
  arithmetic as exact: rounding is not part of the model. The parameters \<^verbatim>\<open>n\<close>,
  \<^verbatim>\<open>ntime\<close> and \<^verbatim>\<open>ndim\<close> are C \<^verbatim>\<open>int\<close>s; no arithmetic on them leaves the range of
  \<^verbatim>\<open>int\<close> for sizes a vector can have, so they are integers here. They are written
  \<open>n\<close>, \<open>nt\<close> and \<open>nd\<close>, since \<open>ntime\<close> is also a constant of the orchestrator.
\<close>

subsection \<open>Objects of the library\<close>

text \<open>A one-dimensional histogram: the constructor's arguments and the bin contents, by
  bin number (bin \<open>k + 1\<close> is the \<open>k\<close>-th bin of the axis).\<close>

record TH1 =
  hname :: string
  htitle :: string
  nbins :: int
  xlow :: real
  xup :: real
  bins :: "nat \<Rightarrow> real"

definition TH1D :: "string \<Rightarrow> string \<Rightarrow> int \<Rightarrow> real \<Rightarrow> real \<Rightarrow> TH1" where
  "TH1D nm title nb lo hi =
     \<lparr>hname = nm, htitle = title, nbins = nb, xlow = lo, xup = hi, bins = (\<lambda>b. 0)\<rparr>"

definition Reset :: "TH1 \<Rightarrow> TH1" where
  "Reset h = h\<lparr>bins := (\<lambda>b. 0)\<rparr>"

definition GetBinContent :: "TH1 \<Rightarrow> nat \<Rightarrow> real" where
  "GetBinContent h b = bins h b"

text \<open>A function object: its formula and its parameters.\<close>

record TF1 =
  formula :: string
  params :: "real list"

definition new_TF1 :: "string \<Rightarrow> TF1" where
  "new_TF1 fml = \<lparr>formula = fml, params = []\<rparr>"

definition SetParameters :: "real \<Rightarrow> real \<Rightarrow> real \<Rightarrow> TF1 \<Rightarrow> TF1" where
  "SetParameters p0 p1 p2 fn = fn\<lparr>params := [p0, p1, p2]\<rparr>"

text \<open>
  The random number generator \<^verbatim>\<open>gRandom\<close> is a state of an arbitrary type \<open>'r\<close>, and
  the two library routines that draw from it are parameters of the model:
  \<open>FillRandom fn h ntimes r\<close> gives the bin contents of histogram \<open>h\<close> after
  \<^verbatim>\<open>h->FillRandom(fn, ntimes)\<close> and the generator's next state, and \<open>Gaus mean sigma r\<close>
  gives the value drawn and the next state.
\<close>

record 'r TRandom =
  FillRandom :: "TF1 \<Rightarrow> TH1 \<Rightarrow> int \<Rightarrow> 'r \<Rightarrow> (nat \<Rightarrow> real) \<times> 'r"
  Gaus :: "real \<Rightarrow> real \<Rightarrow> 'r \<Rightarrow> real \<times> 'r"

text \<open>
  A branch of a tree is bound to the address of a buffer: \<^verbatim>\<open>&x1[i]\<close> or \<^verbatim>\<open>&x2[i]\<close>.
  \<^verbatim>\<open>Fill\<close> appends one entry, which holds the current value at each branch's address.
\<close>

datatype buffer = X1 | X2

record TTree =
  tname :: string
  branches :: "(string \<times> buffer \<times> nat) list"
  entries :: "real list list list"

definition new_TTree :: "string \<Rightarrow> TTree" where
  "new_TTree nm = \<lparr>tname = nm, branches = [], entries = []\<rparr>"

definition Branch :: "string \<Rightarrow> buffer \<times> nat \<Rightarrow> TTree \<Rightarrow> TTree" where
  "Branch nm addr t = t\<lparr>branches := branches t @ [(nm, addr)]\<rparr>"

definition Fill :: "(buffer \<Rightarrow> real list list) \<Rightarrow> TTree \<Rightarrow> TTree" where
  "Fill store t =
     t\<lparr>entries := entries t @ [map (\<lambda>(nm, b, i). store b ! i) (branches t)]\<rparr>"

text \<open>A file: its name, the trees written to it, and whether it is open. Creating the
  file is taken to succeed.\<close>

record TFile =
  fname :: string
  written :: "TTree list"
  is_open :: bool

definition RECREATE :: "string \<Rightarrow> TFile" where
  "RECREATE nm = \<lparr>fname = nm, written = [], is_open = True\<rparr>"

definition Write :: "TTree \<Rightarrow> TFile \<Rightarrow> TFile" where
  "Write t fl = (if is_open fl then fl\<lparr>written := written fl @ [t]\<rparr> else fl)"

definition Close :: "TFile \<Rightarrow> TFile" where
  "Close fl = fl\<lparr>is_open := False\<rparr>"

datatype canvas_call = new_TCanvas | Divide int int | cd int | Draw string | Update

datatype printed = Line string | Print string

datatype exn = length_error

subsection \<open>The state of one call\<close>

record 'r frame =
  v1 :: "TH1 list"
  v2 :: "TH1 list"
  f1 :: TF1
  f2 :: TF1
  sgn :: TTree
  bkg :: TTree
  tfile :: TFile
  x1 :: "real list list"
  x2 :: "real list list"
  gRandom :: 'r
  mean1 :: "real list"
  mean2 :: "real list"
  sigma1 :: "real list"
  sigma2 :: "real list"
  canvas :: "canvas_call list"
  cout :: "printed list"

definition store_of :: "'r frame \<Rightarrow> buffer \<Rightarrow> real list list" where
  "store_of s b = (case b of X1 \<Rightarrow> x1 s | X2 \<Rightarrow> x2 s)"

subsection \<open>The body, loop by loop\<close>

text \<open>Declarations up to the seeding of the generator. The histograms are created by the
  first loop, the buffers by the second, the branches by the third (which binds the
  branches of \<^verbatim>\<open>bkg\<close> to \<^verbatim>\<open>x1\<close> and those of \<^verbatim>\<open>sgn\<close> to \<^verbatim>\<open>x2\<close>). \<open>r0\<close> is the state of
  \<^verbatim>\<open>gRandom\<close> after \<^verbatim>\<open>SetSeed(0)\<close>.\<close>

definition time_data_name :: "int \<Rightarrow> int \<Rightarrow> string" where
  "time_data_name nt nd = ''time_data_t'' @ Format_d nt @ ''_d'' @ Format_d nd @ ''.root''"

definition bind_branches :: "nat \<Rightarrow> 'r frame \<Rightarrow> 'r frame" where
  "bind_branches i s =
     s\<lparr>bkg := Branch (''vars_time'' @ Format_d (int i)) (X1, i) (bkg s),
       sgn := Branch (''vars_time'' @ Format_d (int i)) (X2, i) (sgn s)\<rparr>"

definition declarations :: "'r \<Rightarrow> int \<Rightarrow> int \<Rightarrow> 'r frame" where
  "declarations r0 nt nd =
     fold bind_branches [0..<nat nt]
       \<lparr>v1 = map (\<lambda>i. TH1D (''h1_'' @ Format_d (int i)) ''h1'' nd 0 10) [0..<nat nt],
        v2 = map (\<lambda>i. TH1D (''h2_'' @ Format_d (int i)) ''h2'' nd 0 10) [0..<nat nt],
        f1 = new_TF1 ''gaus'',
        f2 = new_TF1 ''gaus'',
        sgn = new_TTree ''sgn'',
        bkg = new_TTree ''bkg'',
        tfile = RECREATE (time_data_name nt nd),
        x1 = replicate (nat nt) (replicate (nat nd) 0),
        x2 = replicate (nat nt) (replicate (nat nd) 0),
        gRandom = r0,
        mean1 = replicate (nat nt) 0,
        mean2 = replicate (nat nt) 0,
        sigma1 = replicate (nat nt) 0,
        sigma2 = replicate (nat nt) 0,
        canvas = [],
        cout = []\<rparr>"

text \<open>The loop that computes the parameters of each time step.\<close>

definition set_parameters :: "int \<Rightarrow> nat \<Rightarrow> 'r frame \<Rightarrow> 'r frame" where
  "set_parameters nt j s =
     s\<lparr>mean1 := (mean1 s)[j := 5 + 0.2 * sin (pi * real j / real_of_int nt)],
       mean2 := (mean2 s)[j := 5 + 0.2 * cos (pi * real j / real_of_int nt)],
       sigma1 := (sigma1 s)[j := 4 + 0.3 * sin (pi * real j / real_of_int nt)],
       sigma2 := (sigma2 s)[j := 4 + 0.3 * cos (pi * real j / real_of_int nt)]\<rparr>"

text \<open>The innermost loop body: feature \<open>k\<close> of time step \<open>j\<close>, first of \<^verbatim>\<open>x1\<close>, then of
  \<^verbatim>\<open>x2\<close>. \<^verbatim>\<open>h1\<close> and \<^verbatim>\<open>h2\<close> point to \<^verbatim>\<open>v1[j]\<close> and \<^verbatim>\<open>v2[j]\<close>.\<close>

definition set_feature :: "'r TRandom \<Rightarrow> nat \<Rightarrow> nat \<Rightarrow> 'r frame \<Rightarrow> 'r frame" where
  "set_feature rs j k s =
     (let g1 = Gaus rs 0 10 (gRandom s);
          g2 = Gaus rs 0 10 (snd g1)
      in s\<lparr>x1 := (x1 s)[j := (x1 s ! j)[k := GetBinContent (v1 s ! j) (k + 1) + fst g1]],
           x2 := (x2 s)[j := (x2 s ! j)[k := GetBinContent (v2 s ! j) (k + 1) + fst g2]],
           gRandom := snd g2\<rparr>)"

text \<open>The body of the loop over the time steps.\<close>

definition fill_step :: "'r TRandom \<Rightarrow> int \<Rightarrow> nat \<Rightarrow> 'r frame \<Rightarrow> 'r frame" where
  "fill_step rs nd j s =
     (let h1 = Reset (v1 s ! j);
          h2 = Reset (v2 s ! j);
          fn1 = SetParameters 1 (mean1 s ! j) (sigma1 s ! j) (f1 s);
          fn2 = SetParameters 1 (mean2 s ! j) (sigma2 s ! j) (f2 s);
          d1 = FillRandom rs fn1 h1 1000 (gRandom s);
          d2 = FillRandom rs fn2 h2 1000 (snd d1)
      in fold (set_feature rs j) [0..<nat nd]
           (s\<lparr>v1 := (v1 s)[j := h1\<lparr>bins := fst d1\<rparr>],
              v2 := (v2 s)[j := h2\<lparr>bins := fst d2\<rparr>],
              f1 := fn1,
              f2 := fn2,
              gRandom := snd d2\<rparr>))"

text \<open>The diagnostic drawing, done inside the loop over the events when \<^verbatim>\<open>n == 1\<close>.\<close>

definition draw_histograms :: "int \<Rightarrow> 'r frame \<Rightarrow> 'r frame" where
  "draw_histograms nt s =
     s\<lparr>canvas := canvas s @ [new_TCanvas, Divide nt 2]
         @ concat (map (\<lambda>j. [cd (int j + 1), Draw (hname (v1 s ! j))]) [0..<nat nt])
         @ concat (map (\<lambda>j. [cd (nt + int j + 1), Draw (hname (v2 s ! j))]) [0..<nat nt])
         @ [Update]\<rparr>"

text \<open>The body of the loop over the events.\<close>

definition make_event :: "'r TRandom \<Rightarrow> int \<Rightarrow> int \<Rightarrow> int \<Rightarrow> nat \<Rightarrow> 'r frame \<Rightarrow> 'r frame" where
  "make_event rs n nt nd i s =
     (let s1 = (if int i mod 1000 = 0
                then s\<lparr>cout := cout s @ [Line (''Generating  event ... '' @ Format_d (int i))]\<rparr>
                else s);
          s2 = fold (fill_step rs nd) [0..<nat nt] s1;
          s3 = s2\<lparr>sgn := Fill (store_of s2) (sgn s2)\<rparr>;
          s4 = s3\<lparr>bkg := Fill (store_of s3) (bkg s3)\<rparr>
      in if n = 1 then draw_histograms nt s4 else s4)"

text \<open>The end of the body: the trees are written when \<^verbatim>\<open>n > 1\<close>; leaving the function
  destroys the file object, which closes the file.\<close>

definition write_trees :: "int \<Rightarrow> 'r frame \<Rightarrow> 'r frame" where
  "write_trees n s =
     (if 1 < n
      then (let s1 = s\<lparr>tfile := Write (sgn s) (tfile s)\<rparr>;
                s2 = s1\<lparr>tfile := Write (bkg s1) (tfile s1)\<rparr>
            in s2\<lparr>cout := cout s2 @ [Print (tname (sgn s2)), Print (tname (bkg s2))],
                  tfile := Close (tfile s2)\<rparr>)
      else s)"

definition leave :: "'r frame \<Rightarrow> 'r frame" where
  "leave s = s\<lparr>tfile := Close (tfile s)\<rparr>"

text \<open>The body from the first statement that cannot throw to the end.\<close>

definition MakeTimeData_body :: "'r TRandom \<Rightarrow> 'r \<Rightarrow> int \<Rightarrow> int \<Rightarrow> int \<Rightarrow> 'r frame" where
  "MakeTimeData_body rs r0 n nt nd =
     leave (write_trees n
       (fold (make_event rs n nt nd) [0..<nat n]
          (fold (set_parameters nt) [0..<nat nt] (declarations r0 nt nd))))"

text \<open>The whole function. A vector cannot be created with a negative size: the
  constructor throws, at the first declaration for a negative \<^verbatim>\<open>ntime\<close>, and at the first
  buffer for a negative \<^verbatim>\<open>ndim\<close> (if there is a time step at all).\<close>

definition MakeTimeData ::
  "'r TRandom \<Rightarrow> 'r \<Rightarrow> int \<Rightarrow> int \<Rightarrow> int \<Rightarrow> exn + 'r frame" where
  "MakeTimeData rs r0 n nt nd =
     (if nt < 0 then Inl length_error
      else if 0 < nt \<and> nd < 0 then Inl length_error
      else Inr (MakeTimeData_body rs r0 n nt nd))"

subsection \<open>Predicates used to state the properties\<close>

text \<open>A vector of \<open>nd\<close> features is drawn from a Gaussian with the given mean and sigma when
  each feature \<open>k\<close> is the content of bin \<open>k + 1\<close> of an empty \<open>nd\<close>-bin histogram over
  \<open>[0,10]\<close> after \<^verbatim>\<open>FillRandom\<close> with 1000 draws of \<^verbatim>\<open>gaus\<close> with parameters
  \<open>(1, mean, sigma)\<close>, plus a value drawn by \<^verbatim>\<open>Gaus(0, 10)\<close>.\<close>

definition drawn_from :: "'r TRandom \<Rightarrow> real \<Rightarrow> real \<Rightarrow> int \<Rightarrow> real list \<Rightarrow> bool" where
  "drawn_from rs mean sigma nd x =
     (\<exists>h r. nbins h = nd \<and> xlow h = 0 \<and> xup h = 10 \<and> bins h = (\<lambda>b. 0)
        \<and> length x = nat nd
        \<and> (\<forall>k<nat nd. \<exists>r'.
              x ! k = fst (FillRandom rs \<lparr>formula = ''gaus'', params = [1, mean, sigma]\<rparr> h 1000 r)
                        (k + 1)
                      + fst (Gaus rs 0 10 r')))"

text \<open>The sums \<^verbatim>\<open>mean1[j] + mean2[j]\<close>, and what it means for a list of values to lie
  symmetrically about a centre: each deviation occurs with the opposite sign as well.\<close>

definition mean_sums :: "'r frame \<Rightarrow> real list" where
  "mean_sums s = map2 (+) (mean1 s) (mean2 s)"

definition symmetric_about :: "real \<Rightarrow> real list \<Rightarrow> bool" where
  "symmetric_about c xs = list_all (\<lambda>x. list_ex (\<lambda>y. y - c = c - x) xs) xs"

text \<open>Both trees are in the file, each with \<open>n\<close> entries and one branch per time
  step.\<close>

definition persisted :: "int \<Rightarrow> int \<Rightarrow> 'r frame \<Rightarrow> bool" where
  "persisted n nt s =
     (written (tfile s) = [sgn s, bkg s]
      \<and> tname (sgn s) = ''sgn'' \<and> tname (bkg s) = ''bkg''
      \<and> length (entries (sgn s)) = nat n \<and> length (entries (bkg s)) = nat n
      \<and> map fst (branches (sgn s)) = map (\<lambda>i. ''vars_time'' @ Format_d (int i)) [0..<nat nt]
      \<and> map fst (branches (bkg s)) = map (\<lambda>i. ''vars_time'' @ Format_d (int i)) [0..<nat nt])"

text \<open>The frame between two statements of the loops: the buffers and the histograms have
  their sizes, the branches are bound, the parameters are set and the file is open and
  empty.\<close>

definition well_formed :: "int \<Rightarrow> int \<Rightarrow> 'r frame \<Rightarrow> bool" where
  "well_formed nt nd s =
     (length (x1 s) = nat nt \<and> length (x2 s) = nat nt
      \<and> list_all (\<lambda>v. length v = nat nd) (x1 s)
      \<and> list_all (\<lambda>v. length v = nat nd) (x2 s)
      \<and> length (v1 s) = nat nt \<and> length (v2 s) = nat nt
      \<and> list_all (\<lambda>h. nbins h = nd \<and> xlow h = 0 \<and> xup h = 10) (v1 s)
      \<and> list_all (\<lambda>h. nbins h = nd \<and> xlow h = 0 \<and> xup h = 10) (v2 s)
      \<and> map hname (v1 s) = map (\<lambda>i. ''h1_'' @ Format_d (int i)) [0..<nat nt]
      \<and> map hname (v2 s) = map (\<lambda>i. ''h2_'' @ Format_d (int i)) [0..<nat nt]
      \<and> formula (f1 s) = ''gaus'' \<and> formula (f2 s) = ''gaus''
      \<and> tname (sgn s) = ''sgn'' \<and> tname (bkg s) = ''bkg''
      \<and> branches (sgn s) = map (\<lambda>i. (''vars_time'' @ Format_d (int i), X2, i)) [0..<nat nt]
      \<and> branches (bkg s) = map (\<lambda>i. (''vars_time'' @ Format_d (int i), X1, i)) [0..<nat nt]
      \<and> mean1 s = map (\<lambda>j. 5 + 0.2 * sin (pi * real j / real_of_int nt)) [0..<nat nt]
      \<and> mean2 s = map (\<lambda>j. 5 + 0.2 * cos (pi * real j / real_of_int nt)) [0..<nat nt]
      \<and> sigma1 s = map (\<lambda>j. 4 + 0.3 * sin (pi * real j / real_of_int nt)) [0..<nat nt]
      \<and> sigma2 s = map (\<lambda>j. 4 + 0.3 * cos (pi * real j / real_of_int nt)) [0..<nat nt]
      \<and> tfile s = RECREATE (time_data_name nt nd))"

section \<open>The orchestrator on a directory of files\<close>

text \<open>
  What the orchestrator loads depends on the files it finds. A directory maps a file name
  to the file of that name, if there is one. \<^verbatim>\<open>AccessPathName\<close> returns true when the file
  is not there; the generator is then called with \<open>nTotEvts\<close>, \<open>ntime\<close> and \<open>ninput\<close>
  and leaves its file in the directory (for these sizes it does not throw; an exception
  would leave the directory as it is). \<^verbatim>\<open>Get\<close> returns the tree of the given name in the
  file, if the file holds one.
\<close>

type_synonym directory = "string \<Rightarrow> TFile option"

definition in_directory :: "directory \<Rightarrow> env \<Rightarrow> env" where
  "in_directory dir b = b\<lparr>AccessPathName := (\<lambda>nm. dir nm = None)\<rparr>"

definition directory_after :: "'r TRandom \<Rightarrow> 'r \<Rightarrow> directory \<Rightarrow> directory" where
  "directory_after rs r0 dir =
     (let fileExist = \<not> (dir inputFileName = None)
      in if \<not> fileExist
         then (case MakeTimeData rs r0 nTotEvts ntime ninput of
                 Inl x \<Rightarrow> dir
               | Inr s \<Rightarrow> dir(fname (tfile s) \<mapsto> tfile s))
         else dir)"

definition Get_tree :: "string \<Rightarrow> TFile \<Rightarrow> TTree option" where
  "Get_tree nm fl = find (\<lambda>t. tname t = nm) (written fl)"

text \<open>The trees \<^verbatim>\<open>signalTree\<close> and \<^verbatim>\<open>background\<close> that the data loader receives.\<close>

definition loaded_trees :: "'r TRandom \<Rightarrow> 'r \<Rightarrow> directory \<Rightarrow> TTree option \<times> TTree option" where
  "loaded_trees rs r0 dir =
     (case directory_after rs r0 dir inputFileName of
        None \<Rightarrow> (None, None)
      | Some inputFile \<Rightarrow> (Get_tree ''sgn'' inputFile, Get_tree ''bkg'' inputFile))"

section \<open>Concrete inputs\<close>

text \<open>A build with multi-threaded CPU support only, in a directory where the data file
  does not exist yet; in the first environment the input file opens after the generation,
  in the second it does not.\<close>

definition cpu_env :: env where
  "cpu_env = \<lparr>R__HAS_TMVAGPU = False, R__HAS_TMVACPU = True, R__HAS_PYMVA = False,
     AccessPathName = (\<lambda>nm. True), inputFile_opens = True, outputFile_opens = True\<rparr>"

definition no_input_env :: env where
  "no_input_env = cpu_env\<lparr>inputFile_opens := False\<rparr>"

text \<open>A source of random numbers whose every draw is the mean of its distribution:
  \<^verbatim>\<open>FillRandom\<close> adds all its entries to the bin that holds the function's mean, and
  \<^verbatim>\<open>Gaus\<close> returns its mean. Its state counts the calls.\<close>

definition mean_bin :: "TF1 \<Rightarrow> TH1 \<Rightarrow> nat" where
  "mean_bin fn h =
     nat \<lfloor>(params fn ! 1 - xlow h) * real_of_int (nbins h) / (xup h - xlow h)\<rfloor> + 1"

definition point_source :: "nat TRandom" where
  "point_source =
     \<lparr>FillRandom = (\<lambda>fn h ntimes r.
         (\<lambda>b. bins h b + (if b = mean_bin fn h then real_of_int ntimes else 0), Suc r)),
      Gaus = (\<lambda>mean sigma r. (mean, Suc r))\<rparr>"

text \<open>The directory left by an earlier call \<^verbatim>\<open>MakeTimeData(20000, 10, 30)\<close>, and the
  empty directory.\<close>

definition earlier_run :: directory where
  "earlier_run =
     (case MakeTimeData point_source 0 20000 10 30 of
        Inl x \<Rightarrow> Map.empty
      | Inr s \<Rightarrow> [fname (tfile s) \<mapsto> tfile s])"

definition no_files :: directory where
  "no_files = Map.empty"

section \<open>Properties of the orchestrator\<close>


lemma Format_d_numeral [simp]:
  "Format_d 10 = ''10''" "Format_d 30 = ''30''" "Format_d 100 = ''100''" "Format_d 20 = ''20''"
  "Format_d 8000 = ''8000''"
  by (simp_all add: Format_d_def Format_nat.simps digit_char_def)

lemma nTrainSig_value: "nTrainSig = 8000" "nTrainBkg = 8000"
  by (simp_all add: nTrainSig_def nTrainBkg_def double_to_int_def nTotEvts_def)

lemma prepareOptions_value:
  "prepareOptions = ''nTrain_Signal=8000:nTrain_Background=8000:SplitMode=Random:SplitSeed=100:NormMode=NumEvents:!V:!CalcCorrelations''"
  by (simp add: prepareOptions_def nTrainSig_value)

lemma trainingString1_value:
  "trainingString1 = ''LearningRate=1e-3,Momentum=0.0,Repetitions=1,ConvergenceSteps=5,BatchSize=100,TestRepetitions=1,WeightDecay=1e-2,Regularization=None,MaxEpochs=20,Optimizer=ADAM,DropConfig=0.0+0.+0.+0.''"
  by (simp add: trainingString1_def batchSize_def maxepochs_def)

lemma layoutString_value:
  "layoutString = ''Layout=RNN|10|30|10|0|1,RESHAPE|FLAT,DENSE|64|TANH,LINEAR''"
  by (simp add: layoutString_def rnnLayout_def rnn_type_def rnn_types_def ninput_def ntime_def)

lemma rnnOptions_value:
  "rnnOptions e = ''!H:V:ErrorStrategy=CROSSENTROPY:VarTransform=None:WeightInitialization=XAVIERUNIFORM:ValidationSize=0.2:RandomSeed=1234:InputLayout=10|30:Layout=RNN|10|30|10|0|1,RESHAPE|FLAT,DENSE|64|TANH,LINEAR:TrainingStrategy=LearningRate=1e-3,Momentum=0.0,Repetitions=1,ConvergenceSteps=5,BatchSize=100,TestRepetitions=1,WeightDecay=1e-2,Regularization=None,MaxEpochs=20,Optimizer=ADAM,DropConfig=0.0+0.+0.+0.:Architecture='' @ archString e"
  by (simp add: rnnOptions_def inputLayoutString_def layoutString_value trainingStrategyString_def trainingString1_value ninput_def ntime_def)

lemma prepare_items:
  "split_on CHR '':'' prepareOptions = [''nTrain_Signal=8000'', ''nTrain_Background=8000'', ''SplitMode=Random'', ''SplitSeed=100'', ''NormMode=NumEvents'', ''!V'', ''!CalcCorrelations'']"
  by (simp add: prepareOptions_value)

lemma training_items:
  "split_on CHR '','' trainingString1 = [''LearningRate=1e-3'', ''Momentum=0.0'', ''Repetitions=1'', ''ConvergenceSteps=5'', ''BatchSize=100'', ''TestRepetitions=1'', ''WeightDecay=1e-2'', ''Regularization=None'', ''MaxEpochs=20'', ''Optimizer=ADAM'', ''DropConfig=0.0+0.+0.+0.'']"
  by (simp add: trainingString1_value)

lemma archString_cases: "archString e = ''GPU'' \<or> archString e = ''CPU''"
  by (simp add: archString_def)

lemma rnn_items:
  "split_on CHR '':'' (rnnOptions e) = [''!H'', ''V'', ''ErrorStrategy=CROSSENTROPY'', ''VarTransform=None'',
  ''WeightInitialization=XAVIERUNIFORM'', ''ValidationSize=0.2'',
  ''RandomSeed=1234'', ''InputLayout=10|30'',
  layoutString,
  ''TrainingStrategy='' @ trainingString1,
  ''Architecture='' @ archString e]"
  using archString_cases [of e]
  by (auto simp add: rnnOptions_value layoutString_value trainingString1_value)


lemma opening_calls_no_training: "\<not> list_ex training_side (opening_calls e)"
  by (simp add: opening_calls_def)

lemma booked_append: "booked (xs @ ys) = booked xs @ booked ys"
  by (induction xs rule: booked.induct) simp_all

lemma booked_opening: "booked (opening_calls e) = []"
  by (simp add: opening_calls_def)

lemma booked_AddVariablesArray: "booked (map (\<lambda>i. AddVariablesArray (g i) w) is) = []"
  by (induction "is") simp_all

lemma booked_setup: "booked (training_setup_calls e) = [(rnnName, rnnOptions e)]"
  by (simp add: training_setup_calls_def booked_append booked_AddVariablesArray)


text \<open>C2 (what the code does instead): whatever \<^verbatim>\<open>use_type\<close> is, a run that opens its input
  books exactly one method, named \<^verbatim>\<open>TMVA_RNN\<close>, whose layout names the cell kind \<^verbatim>\<open>RNN\<close>: the
  cell type is read from \<open>rnn_types ! 0\<close>, not from the selector. With \<^verbatim>\<open>use_type = 1\<close> the
  documented LSTM is not booked.\<close>

theorem use_type_books_RNN:
  "inputFile_opens e \<Longrightarrow>
     booked (snd (TMVA_RNN_Classification e use_type)) = [(''TMVA_RNN'', rnnOptions e)]
     \<and> option_value ''Layout'' (split_on CHR '':'' (rnnOptions e))
         = Some ''RNN|10|30|10|0|1,RESHAPE|FLAT,DENSE|64|TANH,LINEAR''"
  by (simp add: TMVA_RNN_Classification_def booked_append booked_opening booked_setup
      rnnName_def rnn_type_def rnn_types_def rnn_items layoutString_value)

theorem use_type_LSTM_books_RNN:
  "booked (snd (TMVA_RNN_Classification cpu_env 1)) = [(''TMVA_RNN'', rnnOptions cpu_env)]
     \<and> option_value ''Layout'' (split_on CHR '':'' (rnnOptions cpu_env))
         = Some ''RNN|10|30|10|0|1,RESHAPE|FLAT,DENSE|64|TANH,LINEAR''"
  using use_type_books_RNN [of cpu_env 1] by (simp add: cpu_env_def)

text \<open>C8: if the input file cannot be opened after the conditional generation, the function
  reports the error and returns; the calls made are the opening calls followed by the error
  message, and none of them declares variables, creates the factory or the data loader,
  splits the data or books a method.\<close>

theorem missing_input_file_aborts:
  "\<not> inputFile_opens e \<Longrightarrow>
     TMVA_RNN_Classification e use_type =
       (Returned_on_error,
        opening_calls e @ [Error ''TMVA_RNN_Classification''
           ''Error opening input file time_data_t10_d30.root - exit''])
     \<and> \<not> list_ex training_side (snd (TMVA_RNN_Classification e use_type))
     \<and> booked (snd (TMVA_RNN_Classification e use_type)) = []"
  by (simp add: TMVA_RNN_Classification_def inputFileName_def opening_calls_no_training
      booked_append booked_opening)

theorem missing_input_file_aborts_witness:
  "\<not> inputFile_opens no_input_env
   \<and> TMVA_RNN_Classification no_input_env 1 =
       (Returned_on_error,
        [EnableImplicitMT 0, Config_Instance, Call_MakeTimeData 10000 10 30,
         TFile_Open ''time_data_t10_d30.root'' [],
         Error ''TMVA_RNN_Classification''
           ''Error opening input file time_data_t10_d30.root - exit''])"
  using missing_input_file_aborts [of no_input_env 1]
  by (simp add: no_input_env_def cpu_env_def opening_calls_def inputFileName_def
      nTotEvts_def ntime_def ninput_def)

lemma requested_split_and_training:
  "inputFile_opens e \<Longrightarrow>
     PrepareTrainingAndTestTree [] [] prepareOptions
       \<in> set (snd (TMVA_RNN_Classification e use_type))
     \<and> booked (snd (TMVA_RNN_Classification e use_type)) = [(rnnName, rnnOptions e)]
     \<and> 10 * nTrainSig = 8 * nTotEvts \<and> 10 * nTrainBkg = 8 * nTotEvts
     \<and> option_value ''nTrain_Signal'' (split_on CHR '':'' prepareOptions) = Some ''8000''
     \<and> option_value ''nTrain_Background'' (split_on CHR '':'' prepareOptions) = Some ''8000''
     \<and> option_value ''SplitMode'' (split_on CHR '':'' prepareOptions) = Some ''Random''
     \<and> option_value ''SplitSeed'' (split_on CHR '':'' prepareOptions) = Some ''100''
     \<and> option_value ''ErrorStrategy'' (split_on CHR '':'' (rnnOptions e)) = Some ''CROSSENTROPY''
     \<and> option_value ''WeightInitialization'' (split_on CHR '':'' (rnnOptions e))
         = Some ''XAVIERUNIFORM''
     \<and> option_value ''TrainingStrategy'' (split_on CHR '':'' (rnnOptions e))
         = Some trainingString1
     \<and> option_value ''LearningRate'' (split_on CHR '','' trainingString1) = Some ''1e-3''
     \<and> option_value ''BatchSize'' (split_on CHR '','' trainingString1) = Some ''100''
     \<and> option_value ''MaxEpochs'' (split_on CHR '','' trainingString1) = Some ''20''
     \<and> option_value ''WeightDecay'' (split_on CHR '','' trainingString1) = Some ''1e-2''
     \<and> option_value ''Optimizer'' (split_on CHR '','' trainingString1) = Some ''ADAM''"
proof -
  assume ok: "inputFile_opens e"
  have calls: "snd (TMVA_RNN_Classification e use_type)
      = opening_calls e @ training_setup_calls e"
    using ok by (simp add: TMVA_RNN_Classification_def)
  have prep: "PrepareTrainingAndTestTree [] [] prepareOptions
       \<in> set (snd (TMVA_RNN_Classification e use_type))"
    unfolding calls by (simp add: training_setup_calls_def)
  have bk: "booked (snd (TMVA_RNN_Classification e use_type)) = [(rnnName, rnnOptions e)]"
    unfolding calls by (simp add: booked_append booked_opening booked_setup)
  have n: "10 * nTrainSig = 8 * nTotEvts \<and> 10 * nTrainBkg = 8 * nTotEvts"
    by (simp add: nTrainSig_value nTotEvts_def)
  have p: "option_value ''nTrain_Signal'' (split_on CHR '':'' prepareOptions) = Some ''8000''
     \<and> option_value ''nTrain_Background'' (split_on CHR '':'' prepareOptions) = Some ''8000''
     \<and> option_value ''SplitMode'' (split_on CHR '':'' prepareOptions) = Some ''Random''
     \<and> option_value ''SplitSeed'' (split_on CHR '':'' prepareOptions) = Some ''100''"
    by (simp add: prepare_items)
  have r: "option_value ''ErrorStrategy'' (split_on CHR '':'' (rnnOptions e)) = Some ''CROSSENTROPY''
     \<and> option_value ''WeightInitialization'' (split_on CHR '':'' (rnnOptions e))
         = Some ''XAVIERUNIFORM''
     \<and> option_value ''TrainingStrategy'' (split_on CHR '':'' (rnnOptions e))
         = Some trainingString1"
    by (simp add: rnn_items layoutString_value)
  have t: "option_value ''LearningRate'' (split_on CHR '','' trainingString1) = Some ''1e-3''
     \<and> option_value ''BatchSize'' (split_on CHR '','' trainingString1) = Some ''100''
     \<and> option_value ''MaxEpochs'' (split_on CHR '','' trainingString1) = Some ''20''
     \<and> option_value ''WeightDecay'' (split_on CHR '','' trainingString1) = Some ''1e-2''
     \<and> option_value ''Optimizer'' (split_on CHR '','' trainingString1) = Some ''ADAM''"
    by (simp add: training_items)
  from prep bk n p r t show ?thesis by blast
qed

section \<open>Properties of the generator\<close>

lemma fold_upt_invariant:
  assumes "P 0 s" and "\<And>i t. i < n \<Longrightarrow> P i t \<Longrightarrow> P (Suc i) (f i t)"
  shows "P n (fold f [0..<n] s)"
proof -
  have "m \<le> n \<Longrightarrow> P m (fold f [0..<m] s)" for m
  proof (induction m)
    case 0
    show ?case using assms(1) by simp
  next
    case (Suc m)
    then show ?case using assms(2) [of m "fold f [0..<m] s"] by simp
  qed
  then show ?thesis by simp
qed

lemma update_next:
  "m < length xs \<Longrightarrow>
     (map g [0..<m] @ drop m xs)[m := v] = map g [0..<m] @ v # drop (Suc m) xs"
  by (simp add: list_update_append Cons_nth_drop_Suc [symmetric])

lemma set_parameters_loop:
  "m \<le> length (mean1 s) \<Longrightarrow> m \<le> length (mean2 s) \<Longrightarrow> m \<le> length (sigma1 s)
   \<Longrightarrow> m \<le> length (sigma2 s) \<Longrightarrow>
   fold (set_parameters nt) [0..<m] s =
     s\<lparr>mean1 := map (\<lambda>j. 5 + 0.2 * sin (pi * real j / real_of_int nt)) [0..<m] @ drop m (mean1 s),
       mean2 := map (\<lambda>j. 5 + 0.2 * cos (pi * real j / real_of_int nt)) [0..<m] @ drop m (mean2 s),
       sigma1 := map (\<lambda>j. 4 + 0.3 * sin (pi * real j / real_of_int nt)) [0..<m] @ drop m (sigma1 s),
       sigma2 := map (\<lambda>j. 4 + 0.3 * cos (pi * real j / real_of_int nt)) [0..<m] @ drop m (sigma2 s)\<rparr>"
proof (induction m)
  case 0
  show ?case by simp
next
  case (Suc m)
  have step: "fold (set_parameters nt) [0..<Suc m] s
      = set_parameters nt m (fold (set_parameters nt) [0..<m] s)"
    by simp
  have prev: "fold (set_parameters nt) [0..<m] s =
     s\<lparr>mean1 := map (\<lambda>j. 5 + 0.2 * sin (pi * real j / real_of_int nt)) [0..<m] @ drop m (mean1 s),
       mean2 := map (\<lambda>j. 5 + 0.2 * cos (pi * real j / real_of_int nt)) [0..<m] @ drop m (mean2 s),
       sigma1 := map (\<lambda>j. 4 + 0.3 * sin (pi * real j / real_of_int nt)) [0..<m] @ drop m (sigma1 s),
       sigma2 := map (\<lambda>j. 4 + 0.3 * cos (pi * real j / real_of_int nt)) [0..<m] @ drop m (sigma2 s)\<rparr>"
    using Suc by simp
  show ?case
    unfolding step prev using Suc.prems
    by (simp add: set_parameters_def update_next)
qed


lemma bind_branches_loop:
  "fold bind_branches [0..<m] s =
     s\<lparr>sgn := (sgn s)\<lparr>branches := branches (sgn s)
              @ map (\<lambda>i. (''vars_time'' @ Format_d (int i), X2, i)) [0..<m]\<rparr>,
       bkg := (bkg s)\<lparr>branches := branches (bkg s)
              @ map (\<lambda>i. (''vars_time'' @ Format_d (int i), X1, i)) [0..<m]\<rparr>\<rparr>"
proof (induction m)
  case 0
  show ?case by simp
next
  case (Suc m)
  have step: "fold bind_branches [0..<Suc m] s = bind_branches m (fold bind_branches [0..<m] s)"
    by simp
  show ?case
    unfolding step Suc by (simp add: bind_branches_def Branch_def)
qed

lemma list_all_nth: "list_all P xs = (\<forall>i<length xs. P (xs ! i))"
  by (simp add: list_all_iff all_set_conv_all_nth)

lemma well_formed_parameters:
  "0 \<le> nt \<Longrightarrow>
   well_formed nt nd (fold (set_parameters nt) [0..<nat nt] (declarations r0 nt nd))"
  by (simp add: set_parameters_loop declarations_def bind_branches_loop well_formed_def
      new_TTree_def new_TF1_def TH1D_def list_all_nth o_def)


lemma set_feature_loop:
  "j < length (x1 s) \<Longrightarrow> j < length (x2 s) \<Longrightarrow> m \<le> length (x1 s ! j)
   \<Longrightarrow> m \<le> length (x2 s ! j) \<Longrightarrow>
   \<exists>a b r. fold (set_feature rs j) [0..<m] s
             = s\<lparr>x1 := (x1 s)[j := a], x2 := (x2 s)[j := b], gRandom := r\<rparr>
     \<and> length a = length (x1 s ! j) \<and> length b = length (x2 s ! j)
     \<and> (\<forall>k<m. \<exists>r'. a ! k = bins (v1 s ! j) (k + 1) + fst (Gaus rs 0 10 r'))
     \<and> (\<forall>k<m. \<exists>r'. b ! k = bins (v2 s ! j) (k + 1) + fst (Gaus rs 0 10 r'))"
proof (induction m)
  case 0
  have "fold (set_feature rs j) [0..<0] s
      = s\<lparr>x1 := (x1 s)[j := x1 s ! j], x2 := (x2 s)[j := x2 s ! j], gRandom := gRandom s\<rparr>"
    by simp
  then show ?case by (intro exI conjI) (assumption, simp_all)
next
  case (Suc m)
  then obtain a b r where
    eq: "fold (set_feature rs j) [0..<m] s
           = s\<lparr>x1 := (x1 s)[j := a], x2 := (x2 s)[j := b], gRandom := r\<rparr>"
    and la: "length a = length (x1 s ! j)" and lb: "length b = length (x2 s ! j)"
    and pa: "\<forall>k<m. \<exists>r'. a ! k = bins (v1 s ! j) (k + 1) + fst (Gaus rs 0 10 r')"
    and pb: "\<forall>k<m. \<exists>r'. b ! k = bins (v2 s ! j) (k + 1) + fst (Gaus rs 0 10 r')"
    by auto
  let ?g1 = "Gaus rs 0 10 r"
  let ?g2 = "Gaus rs 0 10 (snd ?g1)"
  let ?a = "a[m := bins (v1 s ! j) (m + 1) + fst ?g1]"
  let ?b = "b[m := bins (v2 s ! j) (m + 1) + fst ?g2]"
  have step: "fold (set_feature rs j) [0..<Suc m] s
      = set_feature rs j m (fold (set_feature rs j) [0..<m] s)"
    by simp
  have "fold (set_feature rs j) [0..<Suc m] s
      = s\<lparr>x1 := (x1 s)[j := ?a], x2 := (x2 s)[j := ?b], gRandom := snd ?g2\<rparr>"
    unfolding step eq using Suc.prems
    by (simp add: set_feature_def GetBinContent_def Let_def)
  moreover have "length ?a = length (x1 s ! j)" "length ?b = length (x2 s ! j)"
    using la lb by simp_all
  moreover have "\<forall>k<Suc m. \<exists>r'. ?a ! k = bins (v1 s ! j) (k + 1) + fst (Gaus rs 0 10 r')"
  proof (intro allI impI)
    fix k assume "k < Suc m"
    show "\<exists>r'. ?a ! k = bins (v1 s ! j) (k + 1) + fst (Gaus rs 0 10 r')"
    proof (cases "k = m")
      case True
      then show ?thesis using la Suc.prems by auto
    next
      case False
      then have "k < m" using \<open>k < Suc m\<close> by simp
      then show ?thesis using pa False by simp
    qed
  qed
  moreover have "\<forall>k<Suc m. \<exists>r'. ?b ! k = bins (v2 s ! j) (k + 1) + fst (Gaus rs 0 10 r')"
  proof (intro allI impI)
    fix k assume "k < Suc m"
    show "\<exists>r'. ?b ! k = bins (v2 s ! j) (k + 1) + fst (Gaus rs 0 10 r')"
    proof (cases "k = m")
      case True
      then show ?thesis using lb Suc.prems by auto
    next
      case False
      then have "k < m" using \<open>k < Suc m\<close> by simp
      then show ?thesis using pb False by simp
    qed
  qed
  ultimately show ?case by blast
qed


lemma gaus_function:
  "formula fn = ''gaus'' \<Longrightarrow>
     SetParameters p0 p1 p2 fn = \<lparr>formula = ''gaus'', params = [p0, p1, p2]\<rparr>"
  by (cases fn) (simp add: SetParameters_def)

lemma fill_step_result:
  assumes wf: "well_formed nt nd s" and j: "j < nat nt"
  shows "\<exists>h1 h2 fn1 fn2 a b r.
     fill_step rs nd j s
       = s\<lparr>v1 := (v1 s)[j := h1], v2 := (v2 s)[j := h2], f1 := fn1, f2 := fn2,
           x1 := (x1 s)[j := a], x2 := (x2 s)[j := b], gRandom := r\<rparr>
     \<and> nbins h1 = nd \<and> xlow h1 = 0 \<and> xup h1 = 10 \<and> hname h1 = hname (v1 s ! j)
     \<and> nbins h2 = nd \<and> xlow h2 = 0 \<and> xup h2 = 10 \<and> hname h2 = hname (v2 s ! j)
     \<and> formula fn1 = ''gaus'' \<and> formula fn2 = ''gaus''
     \<and> drawn_from rs (mean1 s ! j) (sigma1 s ! j) nd a
     \<and> drawn_from rs (mean2 s ! j) (sigma2 s ! j) nd b"
proof -
  let ?h1 = "Reset (v1 s ! j)" and ?h2 = "Reset (v2 s ! j)"
  let ?fn1 = "SetParameters 1 (mean1 s ! j) (sigma1 s ! j) (f1 s)"
  let ?fn2 = "SetParameters 1 (mean2 s ! j) (sigma2 s ! j) (f2 s)"
  let ?d1 = "FillRandom rs ?fn1 ?h1 1000 (gRandom s)"
  let ?d2 = "FillRandom rs ?fn2 ?h2 1000 (snd ?d1)"
  let ?t = "s\<lparr>v1 := (v1 s)[j := ?h1\<lparr>bins := fst ?d1\<rparr>],
              v2 := (v2 s)[j := ?h2\<lparr>bins := fst ?d2\<rparr>],
              f1 := ?fn1, f2 := ?fn2, gRandom := snd ?d2\<rparr>"
  have len: "length (x1 s) = nat nt" "length (x2 s) = nat nt"
    "length (v1 s) = nat nt" "length (v2 s) = nat nt"
    "length (x1 s ! j) = nat nd" "length (x2 s ! j) = nat nd"
    using wf j by (simp_all add: well_formed_def list_all_nth)
  have axis1: "nbins (v1 s ! j) = nd" "xlow (v1 s ! j) = 0" "xup (v1 s ! j) = 10"
    and axis2: "nbins (v2 s ! j) = nd" "xlow (v2 s ! j) = 0" "xup (v2 s ! j) = 10"
    using wf j by (simp_all add: well_formed_def list_all_nth)
  have fn: "?fn1 = \<lparr>formula = ''gaus'', params = [1, mean1 s ! j, sigma1 s ! j]\<rparr>"
    "?fn2 = \<lparr>formula = ''gaus'', params = [1, mean2 s ! j, sigma2 s ! j]\<rparr>"
    using wf by (simp_all add: well_formed_def gaus_function)
  have unfold: "fill_step rs nd j s = fold (set_feature rs j) [0..<nat nd] ?t"
    by (simp add: fill_step_def Let_def)
  have "j < length (x1 ?t)" "j < length (x2 ?t)"
    "nat nd \<le> length (x1 ?t ! j)" "nat nd \<le> length (x2 ?t ! j)"
    using len j by simp_all
  from set_feature_loop [OF this, where rs = rs]
  obtain a b r where
    eq: "fold (set_feature rs j) [0..<nat nd] ?t
           = ?t\<lparr>x1 := (x1 ?t)[j := a], x2 := (x2 ?t)[j := b], gRandom := r\<rparr>"
    and la: "length a = length (x1 ?t ! j)" and lb: "length b = length (x2 ?t ! j)"
    and pa: "\<forall>k<nat nd. \<exists>r'. a ! k = bins (v1 ?t ! j) (k + 1) + fst (Gaus rs 0 10 r')"
    and pb: "\<forall>k<nat nd. \<exists>r'. b ! k = bins (v2 ?t ! j) (k + 1) + fst (Gaus rs 0 10 r')"
    by blast
  have res: "fill_step rs nd j s
       = s\<lparr>v1 := (v1 s)[j := ?h1\<lparr>bins := fst ?d1\<rparr>], v2 := (v2 s)[j := ?h2\<lparr>bins := fst ?d2\<rparr>],
           f1 := ?fn1, f2 := ?fn2,
           x1 := (x1 s)[j := a], x2 := (x2 s)[j := b], gRandom := r\<rparr>"
    unfolding unfold eq by simp
  have da: "drawn_from rs (mean1 s ! j) (sigma1 s ! j) nd a"
    unfolding drawn_from_def
  proof (intro exI conjI)
    show "nbins ?h1 = nd" "xlow ?h1 = 0" "xup ?h1 = 10" "bins ?h1 = (\<lambda>b. 0)"
      using axis1 by (simp_all add: Reset_def)
    show "length a = nat nd" using la len by simp
    show "\<forall>k<nat nd. \<exists>r'. a ! k
        = fst (FillRandom rs \<lparr>formula = ''gaus'', params = [1, mean1 s ! j, sigma1 s ! j]\<rparr>
                 ?h1 1000 (gRandom s)) (k + 1) + fst (Gaus rs 0 10 r')"
      using pa len j unfolding fn [symmetric] by simp
  qed
  have db: "drawn_from rs (mean2 s ! j) (sigma2 s ! j) nd b"
    unfolding drawn_from_def
  proof (intro exI conjI)
    show "nbins ?h2 = nd" "xlow ?h2 = 0" "xup ?h2 = 10" "bins ?h2 = (\<lambda>b. 0)"
      using axis2 by (simp_all add: Reset_def)
    show "length b = nat nd" using lb len by simp
    show "\<forall>k<nat nd. \<exists>r'. b ! k
        = fst (FillRandom rs \<lparr>formula = ''gaus'', params = [1, mean2 s ! j, sigma2 s ! j]\<rparr>
                 ?h2 1000 (snd ?d1)) (k + 1) + fst (Gaus rs 0 10 r')"
      using pb len j unfolding fn [symmetric] by simp
  qed
  have ax: "nbins (?h1\<lparr>bins := fst ?d1\<rparr>) = nd" "xlow (?h1\<lparr>bins := fst ?d1\<rparr>) = 0"
    "xup (?h1\<lparr>bins := fst ?d1\<rparr>) = 10" "hname (?h1\<lparr>bins := fst ?d1\<rparr>) = hname (v1 s ! j)"
    "nbins (?h2\<lparr>bins := fst ?d2\<rparr>) = nd" "xlow (?h2\<lparr>bins := fst ?d2\<rparr>) = 0"
    "xup (?h2\<lparr>bins := fst ?d2\<rparr>) = 10" "hname (?h2\<lparr>bins := fst ?d2\<rparr>) = hname (v2 s ! j)"
    using axis1 axis2 by (simp_all add: Reset_def)
  have fm: "formula ?fn1 = ''gaus''" "formula ?fn2 = ''gaus''"
    unfolding fn by simp_all
  show ?thesis
    using res ax fm da db by blast
qed


lemma drawn_from_length: "drawn_from rs m sg nd a \<Longrightarrow> length a = nat nd"
  by (auto simp add: drawn_from_def)

lemma map_update_same: "j < length xs \<Longrightarrow> g h = g (xs ! j) \<Longrightarrow> map g (xs[j := h]) = map g xs"
  by (simp add: map_update list_update_same_conv)

lemma list_all_update:
  "list_all P xs \<Longrightarrow> P h \<Longrightarrow> list_all P (xs[j := h])"
  using set_update_subset_insert [of xs j h] by (auto simp add: list_all_iff)

lemma fill_step_frame:
  assumes wf: "well_formed nt nd s" and j: "j < nat nt"
  shows "well_formed nt nd (fill_step rs nd j s)"
    and "sgn (fill_step rs nd j s) = sgn s" and "bkg (fill_step rs nd j s) = bkg s"
    and "canvas (fill_step rs nd j s) = canvas s" and "cout (fill_step rs nd j s) = cout s"
    and "i \<noteq> j \<Longrightarrow> x1 (fill_step rs nd j s) ! i = x1 s ! i"
    and "i \<noteq> j \<Longrightarrow> x2 (fill_step rs nd j s) ! i = x2 s ! i"
    and "drawn_from rs (mean1 s ! j) (sigma1 s ! j) nd (x1 (fill_step rs nd j s) ! j)"
    and "drawn_from rs (mean2 s ! j) (sigma2 s ! j) nd (x2 (fill_step rs nd j s) ! j)"
proof -
  from fill_step_result [OF wf j, where rs = rs]
  obtain h1 h2 fn1 fn2 a b r where
    eq: "fill_step rs nd j s
       = s\<lparr>v1 := (v1 s)[j := h1], v2 := (v2 s)[j := h2], f1 := fn1, f2 := fn2,
           x1 := (x1 s)[j := a], x2 := (x2 s)[j := b], gRandom := r\<rparr>"
    and h1: "nbins h1 = nd" "xlow h1 = 0" "xup h1 = 10" "hname h1 = hname (v1 s ! j)"
    and h2: "nbins h2 = nd" "xlow h2 = 0" "xup h2 = 10" "hname h2 = hname (v2 s ! j)"
    and fn: "formula fn1 = ''gaus''" "formula fn2 = ''gaus''"
    and da: "drawn_from rs (mean1 s ! j) (sigma1 s ! j) nd a"
    and db: "drawn_from rs (mean2 s ! j) (sigma2 s ! j) nd b"
    by blast
  have len: "j < length (x1 s)" "j < length (x2 s)" "j < length (v1 s)" "j < length (v2 s)"
    using wf j by (simp_all add: well_formed_def)
  show "well_formed nt nd (fill_step rs nd j s)"
    using wf len h1 h2 fn drawn_from_length [OF da] drawn_from_length [OF db]
    unfolding eq well_formed_def
    by (simp add: map_update_same list_all_update)
  show "sgn (fill_step rs nd j s) = sgn s" "bkg (fill_step rs nd j s) = bkg s"
    "canvas (fill_step rs nd j s) = canvas s" "cout (fill_step rs nd j s) = cout s"
    unfolding eq by simp_all
  show "i \<noteq> j \<Longrightarrow> x1 (fill_step rs nd j s) ! i = x1 s ! i"
    "i \<noteq> j \<Longrightarrow> x2 (fill_step rs nd j s) ! i = x2 s ! i"
    unfolding eq by simp_all
  show "drawn_from rs (mean1 s ! j) (sigma1 s ! j) nd (x1 (fill_step rs nd j s) ! j)"
    "drawn_from rs (mean2 s ! j) (sigma2 s ! j) nd (x2 (fill_step rs nd j s) ! j)"
    unfolding eq using da db len by simp_all
qed

lemma well_formed_parameters_eq:
  "well_formed nt nd s \<Longrightarrow> well_formed nt nd t \<Longrightarrow>
     mean1 t = mean1 s \<and> mean2 t = mean2 s \<and> sigma1 t = sigma1 s \<and> sigma2 t = sigma2 s"
  by (simp add: well_formed_def)

lemma time_loop:
  fixes rs :: "'r TRandom" and s :: "'r frame" and nt nd :: int
  assumes wf: "well_formed nt nd s"
  defines "t \<equiv> fold (fill_step rs nd) [0..<nat nt] s"
  shows "well_formed nt nd t"
    and "sgn t = sgn s" and "bkg t = bkg s" and "canvas t = canvas s" and "cout t = cout s"
    and "j < nat nt \<Longrightarrow> drawn_from rs (mean1 s ! j) (sigma1 s ! j) nd (x1 t ! j)"
    and "j < nat nt \<Longrightarrow> drawn_from rs (mean2 s ! j) (sigma2 s ! j) nd (x2 t ! j)"
proof -
  let ?P = "\<lambda>m (u :: 'r frame). well_formed nt nd u \<and> sgn u = sgn s \<and> bkg u = bkg s
      \<and> canvas u = canvas s \<and> cout u = cout s
      \<and> (\<forall>j<m. drawn_from rs (mean1 s ! j) (sigma1 s ! j) nd (x1 u ! j)
               \<and> drawn_from rs (mean2 s ! j) (sigma2 s ! j) nd (x2 u ! j))"
  have "?P (nat nt) (fold (fill_step rs nd) [0..<nat nt] s)"
  proof (rule fold_upt_invariant [where P = ?P])
    show "?P 0 s" using wf by simp
  next
    fix i and u :: "'r frame"
    assume i: "i < nat nt" and P: "?P i u"
    then have wfu: "well_formed nt nd u" by simp
    note fr = fill_step_frame [OF wfu i]
    note par = well_formed_parameters_eq [OF wf wfu]
    have "\<forall>j<Suc i. drawn_from rs (mean1 s ! j) (sigma1 s ! j) nd (x1 (fill_step rs nd i u) ! j)
               \<and> drawn_from rs (mean2 s ! j) (sigma2 s ! j) nd (x2 (fill_step rs nd i u) ! j)"
    proof (intro allI impI)
      fix j assume "j < Suc i"
      show "drawn_from rs (mean1 s ! j) (sigma1 s ! j) nd (x1 (fill_step rs nd i u) ! j)
               \<and> drawn_from rs (mean2 s ! j) (sigma2 s ! j) nd (x2 (fill_step rs nd i u) ! j)"
      proof (cases "j = i")
        case True
        then show ?thesis using fr(8,9) par by simp
      next
        case False
        then have "j < i" using \<open>j < Suc i\<close> by simp
        then show ?thesis using P fr(6,7) [OF False] by simp
      qed
    qed
    then show "?P (Suc i) (fill_step rs nd i u)"
      using fr(1-5) P by simp
  qed
  then show "well_formed nt nd t"
    and "sgn t = sgn s" and "bkg t = bkg s" and "canvas t = canvas s" and "cout t = cout s"
    and "j < nat nt \<Longrightarrow> drawn_from rs (mean1 s ! j) (sigma1 s ! j) nd (x1 t ! j)"
    and "j < nat nt \<Longrightarrow> drawn_from rs (mean2 s ! j) (sigma2 s ! j) nd (x2 t ! j)"
    unfolding t_def by simp_all
qed


lemma well_formed_cout: "well_formed nt nd (s\<lparr>cout := c\<rparr>) = well_formed nt nd s"
  by (simp add: well_formed_def)

lemma well_formed_canvas: "well_formed nt nd (s\<lparr>canvas := c\<rparr>) = well_formed nt nd s"
  by (simp add: well_formed_def)

lemma well_formed_Fill:
  "well_formed nt nd (s\<lparr>sgn := Fill st (sgn s)\<rparr>) = well_formed nt nd s"
  "well_formed nt nd (s\<lparr>bkg := Fill st (bkg s)\<rparr>) = well_formed nt nd s"
  by (simp_all add: well_formed_def Fill_def)

lemma Fill_sgn:
  "well_formed nt nd s \<Longrightarrow>
     entries (Fill (store_of s) (sgn s)) = entries (sgn s) @ [map (\<lambda>j. x2 s ! j) [0..<nat nt]]"
  by (simp add: Fill_def well_formed_def store_of_def o_def)

lemma Fill_bkg:
  "well_formed nt nd s \<Longrightarrow>
     entries (Fill (store_of s) (bkg s)) = entries (bkg s) @ [map (\<lambda>j. x1 s ! j) [0..<nat nt]]"
  by (simp add: Fill_def well_formed_def store_of_def o_def)

lemma draw_names:
  assumes "well_formed nt nd s"
  shows "draw_histograms nt s =
     s\<lparr>canvas := canvas s @ [new_TCanvas, Divide nt 2]
         @ concat (map (\<lambda>j. [cd (int j + 1), Draw (''h1_'' @ Format_d (int j))]) [0..<nat nt])
         @ concat (map (\<lambda>j. [cd (nt + int j + 1), Draw (''h2_'' @ Format_d (int j))]) [0..<nat nt])
         @ [Update]\<rparr>"
proof -
  have n1: "hname (v1 s ! j) = ''h1_'' @ Format_d (int j)" if "j < nat nt" for j
  proof -
    have a: "map hname (v1 s) = map (\<lambda>i. ''h1_'' @ Format_d (int i)) [0..<nat nt]"
      and l: "length (v1 s) = nat nt"
      using assms by (simp_all add: well_formed_def)
    have "hname (v1 s ! j) = map hname (v1 s) ! j"
      using l that by simp
    also have "\<dots> = ''h1_'' @ Format_d (int j)"
      unfolding a using that by simp
    finally show ?thesis .
  qed
  have n2: "hname (v2 s ! j) = ''h2_'' @ Format_d (int j)" if "j < nat nt" for j
  proof -
    have a: "map hname (v2 s) = map (\<lambda>i. ''h2_'' @ Format_d (int i)) [0..<nat nt]"
      and l: "length (v2 s) = nat nt"
      using assms by (simp_all add: well_formed_def)
    have "hname (v2 s ! j) = map hname (v2 s) ! j"
      using l that by simp
    also have "\<dots> = ''h2_'' @ Format_d (int j)"
      unfolding a using that by simp
    finally show ?thesis .
  qed
  have m1: "map (\<lambda>j. [cd (int j + 1), Draw (hname (v1 s ! j))]) [0..<nat nt]
      = map (\<lambda>j. [cd (int j + 1), Draw (''h1_'' @ Format_d (int j))]) [0..<nat nt]"
    by (rule map_cong) (simp_all add: n1)
  have m2: "map (\<lambda>j. [cd (nt + int j + 1), Draw (hname (v2 s ! j))]) [0..<nat nt]
      = map (\<lambda>j. [cd (nt + int j + 1), Draw (''h2_'' @ Format_d (int j))]) [0..<nat nt]"
    by (rule map_cong) (simp_all add: n2)
  show ?thesis unfolding draw_histograms_def m1 m2 by (rule refl)
qed

lemma make_event_result:
  fixes rs :: "'r TRandom" and s :: "'r frame" and n nt nd :: int and i :: nat
  assumes wf: "well_formed nt nd s"
  defines "t \<equiv> make_event rs n nt nd i s"
  shows "well_formed nt nd t"
    and "\<exists>e. entries (sgn t) = entries (sgn s) @ [e] \<and> length e = nat nt
           \<and> (\<forall>j<nat nt. drawn_from rs (mean2 s ! j) (sigma2 s ! j) nd (e ! j))"
    and "\<exists>e. entries (bkg t) = entries (bkg s) @ [e] \<and> length e = nat nt
           \<and> (\<forall>j<nat nt. drawn_from rs (mean1 s ! j) (sigma1 s ! j) nd (e ! j))"
    and "canvas t = canvas s @ (if n = 1 then [new_TCanvas, Divide nt 2]
         @ concat (map (\<lambda>j. [cd (int j + 1), Draw (''h1_'' @ Format_d (int j))]) [0..<nat nt])
         @ concat (map (\<lambda>j. [cd (nt + int j + 1), Draw (''h2_'' @ Format_d (int j))]) [0..<nat nt])
         @ [Update] else [])"
proof -
  define p1 where "p1 = (if int i mod 1000 = 0
                then s\<lparr>cout := cout s @ [Line (''Generating  event ... '' @ Format_d (int i))]\<rparr>
                else s)"
  define p2 where "p2 = fold (fill_step rs nd) [0..<nat nt] p1"
  define p3 where "p3 = p2\<lparr>sgn := Fill (store_of p2) (sgn p2)\<rparr>"
  define p4 where "p4 = p3\<lparr>bkg := Fill (store_of p3) (bkg p3)\<rparr>"
  have t: "t = (if n = 1 then draw_histograms nt p4 else p4)"
    unfolding t_def make_event_def p1_def p2_def p3_def p4_def Let_def by simp
  have wf1: "well_formed nt nd p1" using wf by (simp add: p1_def well_formed_cout)
  have same1: "sgn p1 = sgn s" "bkg p1 = bkg s" "canvas p1 = canvas s"
    "mean1 p1 = mean1 s" "mean2 p1 = mean2 s" "sigma1 p1 = sigma1 s" "sigma2 p1 = sigma2 s"
    by (simp_all add: p1_def)
  note tl = time_loop [OF wf1, where rs = rs, folded p2_def]
  have wf3: "well_formed nt nd p3" using tl(1) by (simp add: p3_def well_formed_Fill)
  have wf4: "well_formed nt nd p4" using wf3 by (simp add: p4_def well_formed_Fill)
  have e2: "entries (sgn p4) = entries (sgn s) @ [map (\<lambda>j. x2 p2 ! j) [0..<nat nt]]"
    using Fill_sgn [OF tl(1)] tl(2) same1 by (simp add: p4_def p3_def)
  have st3: "store_of p3 = store_of p2" "bkg p3 = bkg p2"
    by (simp_all add: p3_def store_of_def fun_eq_iff split: buffer.splits)
  have e1: "entries (bkg p4) = entries (bkg s) @ [map (\<lambda>j. x1 p2 ! j) [0..<nat nt]]"
    using Fill_bkg [OF tl(1)] tl(3) same1 by (simp add: p4_def st3)
  have c4: "canvas p4 = canvas s"
    using tl(4) same1 by (simp add: p4_def p3_def)
  have tt: "t = (if n = 1 then p4\<lparr>canvas := canvas p4 @ [new_TCanvas, Divide nt 2]
         @ concat (map (\<lambda>j. [cd (int j + 1), Draw (''h1_'' @ Format_d (int j))]) [0..<nat nt])
         @ concat (map (\<lambda>j. [cd (nt + int j + 1), Draw (''h2_'' @ Format_d (int j))]) [0..<nat nt])
         @ [Update]\<rparr> else p4)"
    unfolding t using draw_names [OF wf4] by simp
  show "well_formed nt nd t"
    unfolding tt using wf4 by (simp add: well_formed_canvas)
  have "entries (sgn t) = entries (sgn p4)" "entries (bkg t) = entries (bkg p4)"
    unfolding tt by simp_all
  then have et: "entries (sgn t) = entries (sgn s) @ [map (\<lambda>j. x2 p2 ! j) [0..<nat nt]]"
    "entries (bkg t) = entries (bkg s) @ [map (\<lambda>j. x1 p2 ! j) [0..<nat nt]]"
    using e1 e2 by simp_all
  show "\<exists>e. entries (sgn t) = entries (sgn s) @ [e] \<and> length e = nat nt
           \<and> (\<forall>j<nat nt. drawn_from rs (mean2 s ! j) (sigma2 s ! j) nd (e ! j))"
    using et(1) tl(7) same1 by (intro exI [of _ "map (\<lambda>j. x2 p2 ! j) [0..<nat nt]"]) simp
  show "\<exists>e. entries (bkg t) = entries (bkg s) @ [e] \<and> length e = nat nt
           \<and> (\<forall>j<nat nt. drawn_from rs (mean1 s ! j) (sigma1 s ! j) nd (e ! j))"
    using et(2) tl(6) same1 by (intro exI [of _ "map (\<lambda>j. x1 p2 ! j) [0..<nat nt]"]) simp
  show "canvas t = canvas s @ (if n = 1 then [new_TCanvas, Divide nt 2]
         @ concat (map (\<lambda>j. [cd (int j + 1), Draw (''h1_'' @ Format_d (int j))]) [0..<nat nt])
         @ concat (map (\<lambda>j. [cd (nt + int j + 1), Draw (''h2_'' @ Format_d (int j))]) [0..<nat nt])
         @ [Update] else [])"
    unfolding tt using c4 by simp
qed


lemma event_loop:
  fixes rs :: "'r TRandom" and s :: "'r frame" and n nt nd :: int
  assumes wf: "well_formed nt nd s"
    and empty: "entries (sgn s) = []" "entries (bkg s) = []" "canvas s = []"
  defines "u \<equiv> fold (make_event rs n nt nd) [0..<nat n] s"
  shows "well_formed nt nd u"
    and "length (entries (sgn u)) = nat n" and "length (entries (bkg u)) = nat n"
    and "i < nat n \<Longrightarrow> length (entries (sgn u) ! i) = nat nt"
    and "i < nat n \<Longrightarrow> length (entries (bkg u) ! i) = nat nt"
    and "i < nat n \<Longrightarrow> j < nat nt \<Longrightarrow>
           drawn_from rs (mean2 s ! j) (sigma2 s ! j) nd (entries (sgn u) ! i ! j)"
    and "i < nat n \<Longrightarrow> j < nat nt \<Longrightarrow>
           drawn_from rs (mean1 s ! j) (sigma1 s ! j) nd (entries (bkg u) ! i ! j)"
    and "canvas u = (if n = 1 then [new_TCanvas, Divide nt 2]
         @ concat (map (\<lambda>j. [cd (int j + 1), Draw (''h1_'' @ Format_d (int j))]) [0..<nat nt])
         @ concat (map (\<lambda>j. [cd (nt + int j + 1), Draw (''h2_'' @ Format_d (int j))]) [0..<nat nt])
         @ [Update] else [])"
proof -
  let ?D = "[new_TCanvas, Divide nt 2]
         @ concat (map (\<lambda>j. [cd (int j + 1), Draw (''h1_'' @ Format_d (int j))]) [0..<nat nt])
         @ concat (map (\<lambda>j. [cd (nt + int j + 1), Draw (''h2_'' @ Format_d (int j))]) [0..<nat nt])
         @ [Update]"
  let ?P = "\<lambda>m (t :: 'r frame). well_formed nt nd t
      \<and> length (entries (sgn t)) = m \<and> length (entries (bkg t)) = m
      \<and> (\<forall>i<m. length (entries (sgn t) ! i) = nat nt \<and> length (entries (bkg t) ! i) = nat nt
            \<and> (\<forall>j<nat nt.
                  drawn_from rs (mean2 s ! j) (sigma2 s ! j) nd (entries (sgn t) ! i ! j)
                  \<and> drawn_from rs (mean1 s ! j) (sigma1 s ! j) nd (entries (bkg t) ! i ! j)))
      \<and> canvas t = (if n = 1 \<and> 0 < m then ?D else [])"
  have "?P (nat n) (fold (make_event rs n nt nd) [0..<nat n] s)"
  proof (rule fold_upt_invariant [where P = ?P])
    show "?P 0 s" using wf empty by simp
  next
    fix m and t :: "'r frame"
    assume m: "m < nat n" and P: "?P m t"
    then have wft: "well_formed nt nd t" by simp
    note par = well_formed_parameters_eq [OF wf wft]
    note ev = make_event_result [OF wft, where rs = rs and n = n and i = m]
    from ev(2) obtain e2 where
      e2: "entries (sgn (make_event rs n nt nd m t)) = entries (sgn t) @ [e2]"
        "length e2 = nat nt"
        "\<forall>j<nat nt. drawn_from rs (mean2 t ! j) (sigma2 t ! j) nd (e2 ! j)"
      by blast
    from ev(3) obtain e1 where
      e1: "entries (bkg (make_event rs n nt nd m t)) = entries (bkg t) @ [e1]"
        "length e1 = nat nt"
        "\<forall>j<nat nt. drawn_from rs (mean1 t ! j) (sigma1 t ! j) nd (e1 ! j)"
      by blast
    have ls: "length (entries (sgn t)) = m" "length (entries (bkg t)) = m"
      using P by simp_all
    have "\<forall>i<Suc m. length ((entries (sgn t) @ [e2]) ! i) = nat nt
            \<and> length ((entries (bkg t) @ [e1]) ! i) = nat nt
            \<and> (\<forall>j<nat nt.
                  drawn_from rs (mean2 s ! j) (sigma2 s ! j) nd ((entries (sgn t) @ [e2]) ! i ! j)
                  \<and> drawn_from rs (mean1 s ! j) (sigma1 s ! j) nd
                        ((entries (bkg t) @ [e1]) ! i ! j))"
    proof (intro allI impI)
      fix i assume "i < Suc m"
      show "length ((entries (sgn t) @ [e2]) ! i) = nat nt
            \<and> length ((entries (bkg t) @ [e1]) ! i) = nat nt
            \<and> (\<forall>j<nat nt.
                  drawn_from rs (mean2 s ! j) (sigma2 s ! j) nd ((entries (sgn t) @ [e2]) ! i ! j)
                  \<and> drawn_from rs (mean1 s ! j) (sigma1 s ! j) nd
                        ((entries (bkg t) @ [e1]) ! i ! j))"
      proof (cases "i = m")
        case True
        then show ?thesis using ls e1 e2 par by (simp add: nth_append)
      next
        case False
        then have "i < m" using \<open>i < Suc m\<close> by simp
        then show ?thesis using ls P by (simp add: nth_append)
      qed
    qed
    moreover have "canvas (make_event rs n nt nd m t) = (if n = 1 \<and> 0 < Suc m then ?D else [])"
    proof (cases "n = 1")
      case True
      then have "m = 0" using m by simp
      then show ?thesis using ev(4) P True by simp
    next
      case False
      then show ?thesis using ev(4) P by simp
    qed
    ultimately show "?P (Suc m) (make_event rs n nt nd m t)"
      using ev(1) e1(1) e2(1) ls by simp
  qed
  then have fin: "?P (nat n) u" unfolding u_def .
  show "well_formed nt nd u"
    and "length (entries (sgn u)) = nat n" and "length (entries (bkg u)) = nat n"
    using fin by simp_all
  show "i < nat n \<Longrightarrow> length (entries (sgn u) ! i) = nat nt"
    and "i < nat n \<Longrightarrow> length (entries (bkg u) ! i) = nat nt"
    and "i < nat n \<Longrightarrow> j < nat nt \<Longrightarrow>
           drawn_from rs (mean2 s ! j) (sigma2 s ! j) nd (entries (sgn u) ! i ! j)"
    and "i < nat n \<Longrightarrow> j < nat nt \<Longrightarrow>
           drawn_from rs (mean1 s ! j) (sigma1 s ! j) nd (entries (bkg u) ! i ! j)"
    using fin by simp_all
  have "canvas u = (if n = 1 \<and> 0 < nat n then ?D else [])" using fin by simp
  then show "canvas u = (if n = 1 then ?D else [])" by simp
qed


lemma MakeTimeData_valid:
  "0 \<le> nt \<Longrightarrow> 0 \<le> nd \<Longrightarrow>
     MakeTimeData rs r0 n nt nd = Inr (MakeTimeData_body rs r0 n nt nd)"
  by (simp add: MakeTimeData_def)

lemma MakeTimeData_body_facts:
  fixes rs :: "'r TRandom" and r0 :: 'r and n nt nd :: int
  assumes nt: "0 \<le> nt"
  defines "s \<equiv> MakeTimeData_body rs r0 n nt nd"
  shows "mean1 s = map (\<lambda>j. 5 + 0.2 * sin (pi * real j / real_of_int nt)) [0..<nat nt]"
    and "mean2 s = map (\<lambda>j. 5 + 0.2 * cos (pi * real j / real_of_int nt)) [0..<nat nt]"
    and "sigma1 s = map (\<lambda>j. 4 + 0.3 * sin (pi * real j / real_of_int nt)) [0..<nat nt]"
    and "sigma2 s = map (\<lambda>j. 4 + 0.3 * cos (pi * real j / real_of_int nt)) [0..<nat nt]"
    and "tname (sgn s) = ''sgn''" and "tname (bkg s) = ''bkg''"
    and "branches (sgn s) = map (\<lambda>i. (''vars_time'' @ Format_d (int i), X2, i)) [0..<nat nt]"
    and "branches (bkg s) = map (\<lambda>i. (''vars_time'' @ Format_d (int i), X1, i)) [0..<nat nt]"
    and "length (entries (sgn s)) = nat n" and "length (entries (bkg s)) = nat n"
    and "i < nat n \<Longrightarrow> length (entries (sgn s) ! i) = nat nt"
    and "i < nat n \<Longrightarrow> length (entries (bkg s) ! i) = nat nt"
    and "i < nat n \<Longrightarrow> j < nat nt \<Longrightarrow>
           drawn_from rs (5 + 0.2 * cos (pi * real j / real_of_int nt))
             (4 + 0.3 * cos (pi * real j / real_of_int nt)) nd (entries (sgn s) ! i ! j)"
    and "i < nat n \<Longrightarrow> j < nat nt \<Longrightarrow>
           drawn_from rs (5 + 0.2 * sin (pi * real j / real_of_int nt))
             (4 + 0.3 * sin (pi * real j / real_of_int nt)) nd (entries (bkg s) ! i ! j)"
    and "canvas s = (if n = 1 then [new_TCanvas, Divide nt 2]
         @ concat (map (\<lambda>j. [cd (int j + 1), Draw (''h1_'' @ Format_d (int j))]) [0..<nat nt])
         @ concat (map (\<lambda>j. [cd (nt + int j + 1), Draw (''h2_'' @ Format_d (int j))]) [0..<nat nt])
         @ [Update] else [])"
    and "tfile s = \<lparr>fname = time_data_name nt nd,
           written = (if 1 < n then [sgn s, bkg s] else []), is_open = False\<rparr>"
proof -
  define p where "p = fold (set_parameters nt) [0..<nat nt] (declarations r0 nt nd)"
  define u where "u = fold (make_event rs n nt nd) [0..<nat n] p"
  have wfp: "well_formed nt nd p"
    unfolding p_def using nt by (rule well_formed_parameters)
  have emp: "entries (sgn p) = []" "entries (bkg p) = []" "canvas p = []"
    unfolding p_def using nt
    by (simp_all add: set_parameters_loop declarations_def bind_branches_loop new_TTree_def)
  note ev = event_loop [OF wfp emp, where rs = rs and n = n, folded u_def]
  have s: "s = leave (write_trees n u)"
    by (simp add: s_def MakeTimeData_body_def u_def p_def)
  have same: "sgn s = sgn u" "bkg s = bkg u" "canvas s = canvas u"
    "mean1 s = mean1 u" "mean2 s = mean2 u" "sigma1 s = sigma1 u" "sigma2 s = sigma2 u"
    unfolding s by (simp_all add: leave_def write_trees_def Let_def)
  have pu: "mean1 p = mean1 u" "mean2 p = mean2 u" "sigma1 p = sigma1 u" "sigma2 p = sigma2 u"
    using well_formed_parameters_eq [OF wfp ev(1)] by simp_all
  have wfu: "well_formed nt nd u" by (rule ev(1))
  show "mean1 s = map (\<lambda>j. 5 + 0.2 * sin (pi * real j / real_of_int nt)) [0..<nat nt]"
    and "mean2 s = map (\<lambda>j. 5 + 0.2 * cos (pi * real j / real_of_int nt)) [0..<nat nt]"
    and "sigma1 s = map (\<lambda>j. 4 + 0.3 * sin (pi * real j / real_of_int nt)) [0..<nat nt]"
    and "sigma2 s = map (\<lambda>j. 4 + 0.3 * cos (pi * real j / real_of_int nt)) [0..<nat nt]"
    and "tname (sgn s) = ''sgn''" and "tname (bkg s) = ''bkg''"
    and "branches (sgn s) = map (\<lambda>i. (''vars_time'' @ Format_d (int i), X2, i)) [0..<nat nt]"
    and "branches (bkg s) = map (\<lambda>i. (''vars_time'' @ Format_d (int i), X1, i)) [0..<nat nt]"
    unfolding same using wfu by (simp_all add: well_formed_def)
  show "length (entries (sgn s)) = nat n" and "length (entries (bkg s)) = nat n"
    unfolding same using ev(2,3) by simp_all
  show "i < nat n \<Longrightarrow> length (entries (sgn s) ! i) = nat nt"
    and "i < nat n \<Longrightarrow> length (entries (bkg s) ! i) = nat nt"
    unfolding same using ev(4,5) by simp_all
  have par: "mean1 p ! j = 5 + 0.2 * sin (pi * real j / real_of_int nt)"
    "mean2 p ! j = 5 + 0.2 * cos (pi * real j / real_of_int nt)"
    "sigma1 p ! j = 4 + 0.3 * sin (pi * real j / real_of_int nt)"
    "sigma2 p ! j = 4 + 0.3 * cos (pi * real j / real_of_int nt)" if "j < nat nt"
    using wfp that by (simp_all add: well_formed_def)
  show "i < nat n \<Longrightarrow> j < nat nt \<Longrightarrow>
           drawn_from rs (5 + 0.2 * cos (pi * real j / real_of_int nt))
             (4 + 0.3 * cos (pi * real j / real_of_int nt)) nd (entries (sgn s) ! i ! j)"
    unfolding same using ev(6) [of i j] par by simp
  show "i < nat n \<Longrightarrow> j < nat nt \<Longrightarrow>
           drawn_from rs (5 + 0.2 * sin (pi * real j / real_of_int nt))
             (4 + 0.3 * sin (pi * real j / real_of_int nt)) nd (entries (bkg s) ! i ! j)"
    unfolding same using ev(7) [of i j] par by simp
  show "canvas s = (if n = 1 then [new_TCanvas, Divide nt 2]
         @ concat (map (\<lambda>j. [cd (int j + 1), Draw (''h1_'' @ Format_d (int j))]) [0..<nat nt])
         @ concat (map (\<lambda>j. [cd (nt + int j + 1), Draw (''h2_'' @ Format_d (int j))]) [0..<nat nt])
         @ [Update] else [])"
    unfolding same by (rule ev(8))
  have "tfile u = RECREATE (time_data_name nt nd)"
    using wfu by (simp add: well_formed_def)
  then show "tfile s = \<lparr>fname = time_data_name nt nd,
           written = (if 1 < n then [sgn s, bkg s] else []), is_open = False\<rparr>"
    unfolding same unfolding s
    by (simp add: leave_def write_trees_def Let_def Write_def Close_def RECREATE_def)
qed


subsection \<open>Facts for the concrete inputs\<close>

lemma point_source_drawn:
  "drawn_from point_source m sg nd x \<Longrightarrow> k < nat nd \<Longrightarrow>
     x ! k = (if Suc k = nat \<lfloor>m * real_of_int nd / 10\<rfloor> + 1 then 1000 else 0)"
  by (auto simp add: drawn_from_def point_source_def mean_bin_def)

lemmas model_defs = MakeTimeData_body_def declarations_def bind_branches_def set_parameters_def
  make_event_def fill_step_def set_feature_def draw_histograms_def write_trees_def leave_def
  Fill_def Branch_def store_of_def Write_def Close_def RECREATE_def new_TTree_def new_TF1_def
  TH1D_def Reset_def GetBinContent_def SetParameters_def point_source_def mean_bin_def
  time_data_name_def Format_d_def Format_nat.simps digit_char_def Let_def

lemma upt_2: "[0..<2] = [0, 1]"
  by (simp add: upt_rec)

lemma two_events:
  "entries (sgn (MakeTimeData_body point_source 0 2 1 2)) = [[[0, 1000]], [[0, 1000]]]"
  "entries (bkg (MakeTimeData_body point_source 0 2 1 2)) = [[[0, 1000]], [[0, 1000]]]"
  by (simp_all add: model_defs upt_2 numeral_2_eq_2)

lemma sin_plus_cos_bounds:
  assumes "0 \<le> x" and "x < pi"
  shows "- 1 < sin x + cos x" and "sin x + cos x \<le> sqrt 2"
proof -
  have "0 \<le> sin x" using assms by (simp add: sin_ge_zero)
  moreover have "cos pi < cos x"
    using assms by (intro cos_monotone_0_pi) simp_all
  ultimately show "- 1 < sin x + cos x" by simp
  have "(sin x + cos x)\<^sup>2 + (sin x - cos x)\<^sup>2 = 2 * ((sin x)\<^sup>2 + (cos x)\<^sup>2)"
    by (simp add: power2_eq_square algebra_simps)
  also have "\<dots> = 2" by simp
  finally have "(sin x + cos x)\<^sup>2 + (sin x - cos x)\<^sup>2 = 2" .
  moreover have "0 \<le> (sin x - cos x)\<^sup>2" by simp
  ultimately have "(sin x + cos x)\<^sup>2 \<le> 2" by linarith
  then have "\<bar>sin x + cos x\<bar> \<le> sqrt 2"
    using real_le_rsqrt abs_le_square_iff by (metis abs_ge_zero real_sqrt_abs real_sqrt_le_iff)
  then show "sin x + cos x \<le> sqrt 2" by simp
qed

subsection \<open>The claims about the generator\<close>

text \<open>C1 (amended): for valid sizes, every event \<open>i\<close> and every time step \<open>j\<close>, the vector
  of the tree named \<^verbatim>\<open>sgn\<close> is drawn from the Gaussian with mean \<open>5 + 0.2 cos(\<pi> j / T)\<close> and
  sigma \<open>4 + 0.3 cos(\<pi> j / T)\<close> (\<^verbatim>\<open>mean2\<close>, \<^verbatim>\<open>sigma2\<close>: the parameters the specification calls
  the background's), and the vector of the tree named \<^verbatim>\<open>bkg\<close> from the Gaussian with mean
  \<open>5 + 0.2 sin(\<pi> j / T)\<close> and sigma \<open>4 + 0.3 sin(\<pi> j / T)\<close> (\<^verbatim>\<open>mean1\<close>, \<^verbatim>\<open>sigma1\<close>: the
  parameters the specification calls the signal's). Each feature is a bin content of a
  histogram with \<open>D\<close> bins over \<open>[0,10]\<close> that received 1000 draws, plus a draw of
  \<^verbatim>\<open>Gaus(0, 10)\<close>.\<close>

theorem sgn_is_cosine_bkg_is_sine:
  "0 < n \<Longrightarrow> 0 < nt \<Longrightarrow> 0 < nd \<Longrightarrow> i < nat n \<Longrightarrow> j < nat nt \<Longrightarrow>
     \<exists>s. MakeTimeData rs r0 n nt nd = Inr s
       \<and> tname (sgn s) = ''sgn'' \<and> tname (bkg s) = ''bkg''
       \<and> drawn_from rs (5 + 0.2 * cos (pi * real j / real_of_int nt))
             (4 + 0.3 * cos (pi * real j / real_of_int nt)) nd (entries (sgn s) ! i ! j)
       \<and> drawn_from rs (5 + 0.2 * sin (pi * real j / real_of_int nt))
             (4 + 0.3 * sin (pi * real j / real_of_int nt)) nd (entries (bkg s) ! i ! j)"
proof -
  assume a: "0 < n" "0 < nt" "0 < nd" "i < nat n" "j < nat nt"
  then have nt: "0 \<le> nt" by simp
  note f = MakeTimeData_body_facts [OF nt, where rs = rs and ?r0.0 = r0 and n = n and nd = nd]
  have "MakeTimeData rs r0 n nt nd = Inr (MakeTimeData_body rs r0 n nt nd)"
    using a by (simp add: MakeTimeData_valid)
  then show ?thesis
    using f(5,6) f(13) [OF a(4,5)] f(14) [OF a(4,5)] by blast
qed

theorem sgn_is_cosine_bkg_is_sine_witness:
  "(0::int) < 1 \<and> (0::nat) < nat 1
   \<and> (\<exists>s. MakeTimeData point_source 0 1 1 25 = Inr s
       \<and> tname (sgn s) = ''sgn'' \<and> tname (bkg s) = ''bkg''
       \<and> drawn_from point_source (26 / 5) (43 / 10) 25 (entries (sgn s) ! 0 ! 0)
       \<and> drawn_from point_source 5 4 25 (entries (bkg s) ! 0 ! 0))"
  using sgn_is_cosine_bkg_is_sine [of 1 1 25 0 0 point_source 0] by simp

text \<open>C1 as stated fails: with one event, one time step and 25 bins, and a source whose
  every draw is the mean of its distribution, the vector of the tree \<^verbatim>\<open>sgn\<close> is not drawn
  from the signal parameters \<open>5 + 0.2 sin 0\<close> and \<open>4 + 0.3 sin 0\<close>: its 1000 entries lie in
  bin 14, the bin of the cosine mean 5.2, not in bin 13, the bin of 5.\<close>

theorem sgn_from_signal_parameters_counterexample:
  "MakeTimeData point_source 0 1 1 25 = Inr (MakeTimeData_body point_source 0 1 1 25)
   \<and> tname (sgn (MakeTimeData_body point_source 0 1 1 25)) = ''sgn''
   \<and> entries (sgn (MakeTimeData_body point_source 0 1 1 25)) ! 0 ! 0 ! 12 = 0
   \<and> entries (sgn (MakeTimeData_body point_source 0 1 1 25)) ! 0 ! 0 ! 13 = 1000
   \<and> \<not> drawn_from point_source (5 + 0.2 * sin (pi * real (0::nat) / real_of_int 1))
          (4 + 0.3 * sin (pi * real (0::nat) / real_of_int 1)) 25
          (entries (sgn (MakeTimeData_body point_source 0 1 1 25)) ! 0 ! 0)"
proof -
  let ?e = "entries (sgn (MakeTimeData_body point_source 0 1 1 25)) ! 0 ! 0"
  have nt: "(0::int) \<le> 1" by simp
  note f = MakeTimeData_body_facts [OF nt, where rs = point_source and ?r0.0 = 0
      and n = 1 and nd = 25]
  have cosine: "drawn_from point_source (5 + 0.2 * cos (pi * real (0::nat) / real_of_int 1))
          (4 + 0.3 * cos (pi * real (0::nat) / real_of_int 1)) 25 ?e"
    by (rule f(13)) simp_all
  from point_source_drawn [OF cosine, of 13] have there: "?e ! 13 = 1000" by simp
  from point_source_drawn [OF cosine, of 12] have before: "?e ! 12 = 0" by simp
  have "\<not> drawn_from point_source (5 + 0.2 * sin (pi * real (0::nat) / real_of_int 1))
          (4 + 0.3 * sin (pi * real (0::nat) / real_of_int 1)) 25 ?e"
  proof
    assume "drawn_from point_source (5 + 0.2 * sin (pi * real (0::nat) / real_of_int 1))
          (4 + 0.3 * sin (pi * real (0::nat) / real_of_int 1)) 25 ?e"
    from point_source_drawn [OF this, of 13] have "?e ! 13 = 0" by simp
    with there show False by simp
  qed
  then show ?thesis using f(5) there before by (simp add: MakeTimeData_valid)
qed

text \<open>C3 (amended): for valid sizes, both trees hold \<open>N\<close> entries when the function
  returns, and the file is closed. When \<open>N > 1\<close> both trees are in the file, with one branch
  per time step, and nothing is drawn. When \<open>N = 1\<close> the histograms are drawn and no tree is
  written to the file. The drawing does not change the sample: the loop body with
  \<open>N = 1\<close> leaves the same trees as with any other \<open>N\<close>.\<close>

theorem trees_written_when_more_than_one_event:
  "0 < n \<Longrightarrow> 0 < nt \<Longrightarrow> 0 < nd \<Longrightarrow>
     \<exists>s. MakeTimeData rs r0 n nt nd = Inr s
       \<and> length (entries (sgn s)) = nat n \<and> length (entries (bkg s)) = nat n
       \<and> (if 1 < n then persisted n nt s \<and> canvas s = []
           else written (tfile s) = [] \<and> canvas s \<noteq> [])
       \<and> \<not> is_open (tfile s)
       \<and> sgn (make_event rs 1 nt nd i t) = sgn (make_event rs n nt nd i t)
       \<and> bkg (make_event rs 1 nt nd i t) = bkg (make_event rs n nt nd i t)"
proof -
  assume a: "0 < n" "0 < nt" "0 < nd"
  then have nt: "0 \<le> nt" by simp
  note f = MakeTimeData_body_facts [OF nt, where rs = rs and ?r0.0 = r0 and n = n and nd = nd]
  have v: "MakeTimeData rs r0 n nt nd = Inr (MakeTimeData_body rs r0 n nt nd)"
    using a by (simp add: MakeTimeData_valid)
  have one: "n = 1" if "\<not> 1 < n" using that a by simp
  have w: "if 1 < n then persisted n nt (MakeTimeData_body rs r0 n nt nd)
              \<and> canvas (MakeTimeData_body rs r0 n nt nd) = []
           else written (tfile (MakeTimeData_body rs r0 n nt nd)) = []
              \<and> canvas (MakeTimeData_body rs r0 n nt nd) \<noteq> []"
    using one by (simp add: persisted_def f(5-10) f(15,16) o_def)
  have ev: "sgn (make_event rs 1 nt nd i t) = sgn (make_event rs n nt nd i t)"
    "bkg (make_event rs 1 nt nd i t) = bkg (make_event rs n nt nd i t)"
    by (simp_all add: make_event_def draw_histograms_def Let_def)
  show ?thesis
    unfolding v using w ev by (simp add: f(9,10,16))
qed

theorem trees_written_when_more_than_one_event_witness:
  "(0::int) < 2 \<and> (0::int) < 1
   \<and> (\<exists>s. MakeTimeData point_source 0 2 1 2 = Inr s
       \<and> length (entries (sgn s)) = 2 \<and> length (entries (bkg s)) = 2
       \<and> persisted 2 1 s \<and> canvas s = [] \<and> \<not> is_open (tfile s))"
  using trees_written_when_more_than_one_event [of 2 1 2 point_source 0] by auto

text \<open>C3 as stated fails at \<open>N = 1\<close>: the call returns normally, each tree holds its one
  entry and the histograms are drawn, but the file holds no tree.\<close>

theorem one_event_is_not_written:
  "MakeTimeData point_source 0 1 1 1 = Inr (MakeTimeData_body point_source 0 1 1 1)
   \<and> length (entries (sgn (MakeTimeData_body point_source 0 1 1 1))) = 1
   \<and> length (entries (bkg (MakeTimeData_body point_source 0 1 1 1))) = 1
   \<and> canvas (MakeTimeData_body point_source 0 1 1 1)
       = [new_TCanvas, Divide 1 2, cd 1, Draw ''h1_0'', cd 2, Draw ''h2_0'', Update]
   \<and> written (tfile (MakeTimeData_body point_source 0 1 1 1)) = []
   \<and> \<not> persisted 1 1 (MakeTimeData_body point_source 0 1 1 1)"
proof -
  have nt: "(0::int) \<le> 1" by simp
  note f = MakeTimeData_body_facts [OF nt, where rs = point_source and ?r0.0 = 0
      and n = 1 and nd = 1]
  have "canvas (MakeTimeData_body point_source 0 1 1 1)
       = [new_TCanvas, Divide 1 2, cd 1, Draw ''h1_0'', cd 2, Draw ''h2_0'', Update]"
    by (simp add: f(15) Format_d_def Format_nat.simps digit_char_def)
  then show ?thesis
    by (simp add: MakeTimeData_valid persisted_def f(9,10,16))
qed

text \<open>C4: for valid sizes, every entry of either tree has exactly \<open>T\<close> time steps, and
  every time step holds exactly \<open>D\<close> features.\<close>

theorem samples_have_shape:
  "0 < n \<Longrightarrow> 0 < nt \<Longrightarrow> 0 < nd \<Longrightarrow>
     \<exists>s. MakeTimeData rs r0 n nt nd = Inr s
       \<and> list_all (\<lambda>e. length e = nat nt \<and> list_all (\<lambda>v. length v = nat nd) e)
            (entries (sgn s))
       \<and> list_all (\<lambda>e. length e = nat nt \<and> list_all (\<lambda>v. length v = nat nd) e)
            (entries (bkg s))"
proof -
  assume a: "0 < n" "0 < nt" "0 < nd"
  then have nt: "0 \<le> nt" by simp
  note f = MakeTimeData_body_facts [OF nt, where rs = rs and ?r0.0 = r0 and n = n and nd = nd]
  have v: "MakeTimeData rs r0 n nt nd = Inr (MakeTimeData_body rs r0 n nt nd)"
    using a by (simp add: MakeTimeData_valid)
  have "list_all (\<lambda>e. length e = nat nt \<and> list_all (\<lambda>v. length v = nat nd) e)
            (entries (sgn (MakeTimeData_body rs r0 n nt nd)))"
    unfolding list_all_nth using f(9) f(11) drawn_from_length [OF f(13)] by simp
  moreover have "list_all (\<lambda>e. length e = nat nt \<and> list_all (\<lambda>v. length v = nat nd) e)
            (entries (bkg (MakeTimeData_body rs r0 n nt nd)))"
    unfolding list_all_nth using f(10) f(12) drawn_from_length [OF f(14)] by simp
  ultimately show ?thesis using v by blast
qed

theorem samples_have_shape_witness:
  "(0::int) < 2 \<and> (0::int) < 1
   \<and> MakeTimeData point_source 0 2 1 2 = Inr (MakeTimeData_body point_source 0 2 1 2)
   \<and> entries (sgn (MakeTimeData_body point_source 0 2 1 2)) = [[[0, 1000]], [[0, 1000]]]
   \<and> entries (bkg (MakeTimeData_body point_source 0 2 1 2)) = [[[0, 1000]], [[0, 1000]]]
   \<and> list_all (\<lambda>e. length e = nat 1 \<and> list_all (\<lambda>v. length v = nat 2) e)
        (entries (sgn (MakeTimeData_body point_source 0 2 1 2)))
   \<and> list_all (\<lambda>e. length e = nat 1 \<and> list_all (\<lambda>v. length v = nat 2) e)
        (entries (bkg (MakeTimeData_body point_source 0 2 1 2)))"
proof -
  have v: "MakeTimeData point_source 0 2 1 2 = Inr (MakeTimeData_body point_source 0 2 1 2)"
    by (simp add: MakeTimeData_valid)
  from samples_have_shape [of 2 1 2 point_source 0]
  have "list_all (\<lambda>e. length e = nat 1 \<and> list_all (\<lambda>v. length v = nat 2) e)
        (entries (sgn (MakeTimeData_body point_source 0 2 1 2)))
   \<and> list_all (\<lambda>e. length e = nat 1 \<and> list_all (\<lambda>v. length v = nat 2) e)
        (entries (bkg (MakeTimeData_body point_source 0 2 1 2)))"
    unfolding v by simp
  then show ?thesis using v two_events by simp
qed

text \<open>C5: for every time step \<open>j < T\<close>, the parameters computed by the loop are
  \<open>mean1[j] = 5 + 0.2 sin(\<pi> j / T)\<close>, \<open>mean2[j] = 5 + 0.2 cos(\<pi> j / T)\<close>,
  \<open>sigma1[j] = 4 + 0.3 sin(\<pi> j / T)\<close> and \<open>sigma2[j] = 4 + 0.3 cos(\<pi> j / T)\<close>; the
  specification names the first pair of vectors the signal's and the second the
  background's.\<close>

theorem parameters_of_each_step:
  "0 \<le> nd \<Longrightarrow> j < nat nt \<Longrightarrow>
     \<exists>s. MakeTimeData rs r0 n nt nd = Inr s
       \<and> length (mean1 s) = nat nt \<and> length (mean2 s) = nat nt
       \<and> length (sigma1 s) = nat nt \<and> length (sigma2 s) = nat nt
       \<and> mean1 s ! j = 5 + 0.2 * sin (pi * real j / real_of_int nt)
       \<and> mean2 s ! j = 5 + 0.2 * cos (pi * real j / real_of_int nt)
       \<and> sigma1 s ! j = 4 + 0.3 * sin (pi * real j / real_of_int nt)
       \<and> sigma2 s ! j = 4 + 0.3 * cos (pi * real j / real_of_int nt)"
proof -
  assume a: "0 \<le> nd" "j < nat nt"
  then have nt: "0 \<le> nt" by simp
  note f = MakeTimeData_body_facts [OF nt, where rs = rs and ?r0.0 = r0 and n = n and nd = nd]
  have v: "MakeTimeData rs r0 n nt nd = Inr (MakeTimeData_body rs r0 n nt nd)"
    using a nt by (simp add: MakeTimeData_valid)
  show ?thesis
    unfolding v using a(2) by (simp add: f(1-4))
qed

theorem parameters_of_each_step_witness:
  "(0::int) \<le> 1 \<and> (1::nat) < nat 2
   \<and> (\<exists>s. MakeTimeData point_source 0 1 2 1 = Inr s
       \<and> mean1 s ! 1 = 26 / 5 \<and> mean2 s ! 1 = 5 \<and> sigma1 s ! 1 = 43 / 10 \<and> sigma2 s ! 1 = 4)"
  using parameters_of_each_step [of 1 1 2 point_source 0 1] by auto

text \<open>C6 (amended): for every time step \<open>j < T\<close>, the sum \<open>mean1[j] + mean2[j]\<close> is
  \<open>10 + 0.2 (sin(\<pi> j / T) + cos(\<pi> j / T))\<close>; it is greater than \<open>9.8\<close> and at most
  \<open>10 + 0.2 \<surd>2\<close>.\<close>

theorem sum_of_means:
  "0 \<le> nd \<Longrightarrow> j < nat nt \<Longrightarrow>
     \<exists>s. MakeTimeData rs r0 n nt nd = Inr s
       \<and> length (mean_sums s) = nat nt
       \<and> mean_sums s ! j
           = 10 + 0.2 * (sin (pi * real j / real_of_int nt) + cos (pi * real j / real_of_int nt))
       \<and> 10 - 0.2 < mean_sums s ! j
       \<and> mean_sums s ! j \<le> 10 + 0.2 * sqrt 2"
proof -
  assume a: "0 \<le> nd" "j < nat nt"
  then have nt: "0 < nt" by simp
  then have nt0: "0 \<le> nt" by simp
  note f = MakeTimeData_body_facts [OF nt0, where rs = rs and ?r0.0 = r0 and n = n and nd = nd]
  have v: "MakeTimeData rs r0 n nt nd = Inr (MakeTimeData_body rs r0 n nt nd)"
    using a nt by (simp add: MakeTimeData_valid)
  let ?x = "pi * real j / real_of_int nt"
  have "real j < real_of_int nt" using a(2) by linarith
  then have x: "0 \<le> ?x" "?x < pi"
    using nt by (simp_all add: field_simps)
  note b = sin_plus_cos_bounds [OF x]
  have len: "length (mean_sums (MakeTimeData_body rs r0 n nt nd)) = nat nt"
    by (simp add: mean_sums_def f(1,2))
  have val: "mean_sums (MakeTimeData_body rs r0 n nt nd) ! j = 10 + 0.2 * (sin ?x + cos ?x)"
    using a(2) by (simp add: mean_sums_def f(1,2) algebra_simps)
  have "10 - 0.2 < 10 + 0.2 * (sin ?x + cos ?x)" using b(1) by (simp add: field_simps)
  moreover have "10 + 0.2 * (sin ?x + cos ?x) \<le> 10 + 0.2 * sqrt 2" using b(2) by simp
  ultimately show ?thesis using v len val by auto
qed

theorem sum_of_means_witness:
  "(0::int) \<le> 1 \<and> (1::nat) < nat 2
   \<and> (\<exists>s. MakeTimeData point_source 0 1 2 1 = Inr s \<and> mean_sums s ! 1 = 51 / 5)"
  using sum_of_means [of 1 1 2 point_source 0 1] by auto

text \<open>C6 as stated fails: with one time step the only sum is \<open>10.2\<close>, and no sum lies
  below 10 by the same amount.\<close>

theorem sums_not_symmetric:
  "mean_sums (MakeTimeData_body point_source 0 1 1 1) = [51 / 5]
   \<and> \<not> symmetric_about 10 (mean_sums (MakeTimeData_body point_source 0 1 1 1))"
proof -
  have nt: "(0::int) \<le> 1" by simp
  note f = MakeTimeData_body_facts [OF nt, where rs = point_source and ?r0.0 = 0
      and n = 1 and nd = 1]
  have "mean_sums (MakeTimeData_body point_source 0 1 1 1) = [51 / 5]"
    by (simp add: mean_sums_def f(1,2))
  then show ?thesis by (simp add: symmetric_about_def)
qed

text \<open>C10: the name of the file is \<^verbatim>\<open>time_data_t\<close>\<open>T\<close>\<^verbatim>\<open>_d\<close>\<open>D\<close>\<^verbatim>\<open>.root\<close>, whatever the number
  of events and the random source, so two runs with the same \<open>T\<close> and \<open>D\<close> name the same
  file; for \<open>T = 10\<close> and \<open>D = 30\<close> it is the name the orchestrator tests, and the
  orchestrator calls the generator exactly when that file is not accessible.\<close>

theorem file_name_ignores_n:
  "0 \<le> nt \<Longrightarrow> 0 \<le> nd \<Longrightarrow>
     (\<exists>s s'. MakeTimeData rs r0 n nt nd = Inr s \<and> MakeTimeData rs' r0' n' nt nd = Inr s'
        \<and> fname (tfile s) = ''time_data_t'' @ Format_d nt @ ''_d'' @ Format_d nd @ ''.root''
        \<and> fname (tfile s') = fname (tfile s))
     \<and> (\<exists>s. MakeTimeData rs r0 n 10 30 = Inr s
          \<and> fname (tfile s) = inputFileName
          \<and> (Call_MakeTimeData nTotEvts ntime ninput
                  \<in> set (snd (TMVA_RNN_Classification e use_type))
               \<longleftrightarrow> AccessPathName e (fname (tfile s))))"
proof -
  assume a: "0 \<le> nt" "0 \<le> nd"
  note f = MakeTimeData_body_facts(16) [OF a(1), where rs = rs and ?r0.0 = r0 and n = n and nd = nd]
  note f' = MakeTimeData_body_facts(16) [OF a(1), where rs = rs' and ?r0.0 = r0' and n = n'
      and nd = nd]
  have ten: "(0::int) \<le> 10" by simp
  note g = MakeTimeData_body_facts(16) [OF ten, where rs = rs and ?r0.0 = r0 and n = n
      and nd = 30]
  have nm: "time_data_name 10 30 = inputFileName"
    by (simp add: time_data_name_def inputFileName_def)
  have call: "Call_MakeTimeData nTotEvts ntime ninput
                  \<in> set (snd (TMVA_RNN_Classification e use_type))
               \<longleftrightarrow> AccessPathName e inputFileName"
    by (auto simp add: TMVA_RNN_Classification_def opening_calls_def training_setup_calls_def)
  have first: "\<exists>s s'. MakeTimeData rs r0 n nt nd = Inr s \<and> MakeTimeData rs' r0' n' nt nd = Inr s'
        \<and> fname (tfile s) = ''time_data_t'' @ Format_d nt @ ''_d'' @ Format_d nd @ ''.root''
        \<and> fname (tfile s') = fname (tfile s)"
    using a by (simp add: MakeTimeData_valid f f' time_data_name_def)
  have second: "\<exists>s. MakeTimeData rs r0 n 10 30 = Inr s
          \<and> fname (tfile s) = inputFileName
          \<and> (Call_MakeTimeData nTotEvts ntime ninput
                  \<in> set (snd (TMVA_RNN_Classification e use_type))
               \<longleftrightarrow> AccessPathName e (fname (tfile s)))"
    using call by (simp add: MakeTimeData_valid g nm)
  from first second show ?thesis by (rule conjI)
qed

theorem file_name_ignores_n_witness:
  "(0::int) \<le> 10 \<and> (0::int) \<le> 30
   \<and> (\<exists>s s'. MakeTimeData point_source 0 1 10 30 = Inr s
        \<and> MakeTimeData point_source 7 10000 10 30 = Inr s'
        \<and> fname (tfile s) = ''time_data_t10_d30.root''
        \<and> fname (tfile s') = fname (tfile s))
   \<and> (\<exists>s. MakeTimeData point_source 0 1 10 30 = Inr s
        \<and> fname (tfile s) = inputFileName
        \<and> Call_MakeTimeData nTotEvts ntime ninput
             \<in> set (snd (TMVA_RNN_Classification cpu_env 1)))"
  using file_name_ignores_n [of 10 30 point_source 0 1 point_source 7 10000 cpu_env 1]
  by (simp add: cpu_env_def)

section \<open>The orchestrator and the generator together\<close>

lemma generation_called_iff:
  "Call_MakeTimeData nTotEvts ntime ninput \<in> set (snd (TMVA_RNN_Classification e use_type))
     \<longleftrightarrow> AccessPathName e inputFileName"
  by (auto simp add: TMVA_RNN_Classification_def opening_calls_def training_setup_calls_def)

lemma generated_file:
  fixes rs :: "'r TRandom" and r0 :: 'r and n nt nd :: int
  assumes "1 < n" and "0 \<le> nt" and "0 \<le> nd"
  defines "S \<equiv> MakeTimeData_body rs r0 n nt nd"
  shows "MakeTimeData rs r0 n nt nd = Inr S"
    and "fname (tfile S) = time_data_name nt nd"
    and "Get_tree ''sgn'' (tfile S) = Some (sgn S)"
    and "Get_tree ''bkg'' (tfile S) = Some (bkg S)"
    and "length (entries (sgn S)) = nat n" and "length (entries (bkg S)) = nat n"
proof -
  note f = MakeTimeData_body_facts [OF assms(2), where rs = rs and ?r0.0 = r0 and n = n
      and nd = nd, folded S_def]
  show "MakeTimeData rs r0 n nt nd = Inr S"
    using assms(2,3) by (simp add: MakeTimeData_valid S_def)
  show "fname (tfile S) = time_data_name nt nd" by (simp add: f(16))
  show "Get_tree ''sgn'' (tfile S) = Some (sgn S)"
    using assms(1) by (simp add: Get_tree_def f(16) f(5))
  show "Get_tree ''bkg'' (tfile S) = Some (bkg S)"
    using assms(1) by (simp add: Get_tree_def f(16) f(5,6))
  show "length (entries (sgn S)) = nat n" "length (entries (bkg S)) = nat n"
    by (simp_all add: f(9,10))
qed

lemma time_data_name_10_30: "time_data_name ntime ninput = inputFileName"
  by (simp add: time_data_name_def inputFileName_def ntime_def ninput_def)

lemma loaded_after_generation:
  fixes rs :: "'r TRandom" and r0 :: 'r
  assumes "dir inputFileName = None"
  shows "loaded_trees rs r0 dir
      = (Some (sgn (MakeTimeData_body rs r0 nTotEvts ntime ninput)),
         Some (bkg (MakeTimeData_body rs r0 nTotEvts ntime ninput)))"
proof -
  have sizes: "1 < nTotEvts" "0 \<le> ntime" "0 \<le> ninput"
    by (simp_all add: nTotEvts_def ntime_def ninput_def)
  note g = generated_file [OF sizes, where rs = rs and ?r0.0 = r0]
  show ?thesis
    using assms
    by (simp add: loaded_trees_def directory_after_def g(1) g(2) time_data_name_10_30 g(3,4))
qed

lemma loaded_from_existing:
  "dir inputFileName = Some fl \<Longrightarrow>
     loaded_trees rs r0 dir = (Get_tree ''sgn'' fl, Get_tree ''bkg'' fl)"
  by (simp add: loaded_trees_def directory_after_def)

lemma earlier_run_file:
  "earlier_run inputFileName = Some (tfile (MakeTimeData_body point_source 0 20000 10 30))"
proof -
  have sizes: "(1::int) < 20000" "(0::int) \<le> 10" "(0::int) \<le> 30" by simp_all
  note g = generated_file [OF sizes, where rs = point_source and ?r0.0 = 0]
  have "time_data_name 10 30 = inputFileName"
    by (simp add: time_data_name_def inputFileName_def)
  then show ?thesis by (simp add: earlier_run_def g(1,2))
qed

text \<open>C9 (amended): a run that opens its input asks for 8000 training events of each class,
  which is 80 percent of \<open>nTotEvts\<close>, split at random with seed 100, whatever the input file
  holds, and books its method with an option string that encodes learning rate 1e-3, batch
  size 100, at most 20 epochs, weight decay 1e-2, the ADAM optimizer, the cross-entropy error
  strategy and Xavier-uniform weight initialization. When the file is not there, the
  orchestrator generates it and loads two trees of \<open>nTotEvts\<close> events each, so that the 8000
  are 80 percent of the loaded events of each class. When the file is there already, nothing
  is generated and the trees loaded are the ones that file holds.\<close>

theorem split_and_training_configuration:
  "inputFile_opens b \<Longrightarrow>
     PrepareTrainingAndTestTree [] [] prepareOptions
       \<in> set (snd (TMVA_RNN_Classification (in_directory dir b) use_type))
     \<and> booked (snd (TMVA_RNN_Classification (in_directory dir b) use_type))
         = [(rnnName, rnnOptions (in_directory dir b))]
     \<and> 10 * nTrainSig = 8 * nTotEvts \<and> 10 * nTrainBkg = 8 * nTotEvts
     \<and> option_value ''nTrain_Signal'' (split_on CHR '':'' prepareOptions) = Some ''8000''
     \<and> option_value ''nTrain_Background'' (split_on CHR '':'' prepareOptions) = Some ''8000''
     \<and> option_value ''SplitMode'' (split_on CHR '':'' prepareOptions) = Some ''Random''
     \<and> option_value ''SplitSeed'' (split_on CHR '':'' prepareOptions) = Some ''100''
     \<and> option_value ''ErrorStrategy'' (split_on CHR '':'' (rnnOptions (in_directory dir b)))
         = Some ''CROSSENTROPY''
     \<and> option_value ''WeightInitialization'' (split_on CHR '':'' (rnnOptions (in_directory dir b)))
         = Some ''XAVIERUNIFORM''
     \<and> option_value ''TrainingStrategy'' (split_on CHR '':'' (rnnOptions (in_directory dir b)))
         = Some trainingString1
     \<and> option_value ''LearningRate'' (split_on CHR '','' trainingString1) = Some ''1e-3''
     \<and> option_value ''BatchSize'' (split_on CHR '','' trainingString1) = Some ''100''
     \<and> option_value ''MaxEpochs'' (split_on CHR '','' trainingString1) = Some ''20''
     \<and> option_value ''WeightDecay'' (split_on CHR '','' trainingString1) = Some ''1e-2''
     \<and> option_value ''Optimizer'' (split_on CHR '','' trainingString1) = Some ''ADAM''
     \<and> (if dir inputFileName = None
         then Call_MakeTimeData nTotEvts ntime ninput
                \<in> set (snd (TMVA_RNN_Classification (in_directory dir b) use_type))
              \<and> (\<exists>sg bk. loaded_trees rs r0 dir = (Some sg, Some bk)
                   \<and> int (length (entries sg)) = nTotEvts
                   \<and> int (length (entries bk)) = nTotEvts
                   \<and> 10 * nTrainSig = 8 * int (length (entries sg))
                   \<and> 10 * nTrainBkg = 8 * int (length (entries bk)))
         else Call_MakeTimeData nTotEvts ntime ninput
                \<notin> set (snd (TMVA_RNN_Classification (in_directory dir b) use_type))
              \<and> (\<exists>fl. dir inputFileName = Some fl
                   \<and> loaded_trees rs r0 dir = (Get_tree ''sgn'' fl, Get_tree ''bkg'' fl)))"
proof -
  assume ok: "inputFile_opens b"
  let ?e = "in_directory dir b"
  have oke: "inputFile_opens ?e" using ok by (simp add: in_directory_def)
  note req = requested_split_and_training [OF oke, of use_type]
  have acc: "AccessPathName ?e inputFileName \<longleftrightarrow> dir inputFileName = None"
    by (simp add: in_directory_def)
  have sizes: "1 < nTotEvts" "0 \<le> ntime" "0 \<le> ninput"
    by (simp_all add: nTotEvts_def ntime_def ninput_def)
  note g = generated_file [OF sizes, where rs = rs and ?r0.0 = r0]
  have last: "if dir inputFileName = None
         then Call_MakeTimeData nTotEvts ntime ninput
                \<in> set (snd (TMVA_RNN_Classification ?e use_type))
              \<and> (\<exists>sg bk. loaded_trees rs r0 dir = (Some sg, Some bk)
                   \<and> int (length (entries sg)) = nTotEvts
                   \<and> int (length (entries bk)) = nTotEvts
                   \<and> 10 * nTrainSig = 8 * int (length (entries sg))
                   \<and> 10 * nTrainBkg = 8 * int (length (entries bk)))
         else Call_MakeTimeData nTotEvts ntime ninput
                \<notin> set (snd (TMVA_RNN_Classification ?e use_type))
              \<and> (\<exists>fl. dir inputFileName = Some fl
                   \<and> loaded_trees rs r0 dir = (Get_tree ''sgn'' fl, Get_tree ''bkg'' fl))"
  proof (cases "dir inputFileName")
    case None
    have "int (length (entries (sgn (MakeTimeData_body rs r0 nTotEvts ntime ninput)))) = nTotEvts"
      "int (length (entries (bkg (MakeTimeData_body rs r0 nTotEvts ntime ninput)))) = nTotEvts"
      using sizes(1) by (simp_all add: g(5,6))
    then show ?thesis
      using None req by (simp add: generation_called_iff acc loaded_after_generation)
  next
    case (Some fl)
    then show ?thesis
      by (simp add: generation_called_iff acc loaded_from_existing)
  qed
  from req last show ?thesis by blast
qed

theorem split_and_training_configuration_witness:
  "inputFile_opens cpu_env
   \<and> Call_MakeTimeData 10000 10 30
        \<in> set (snd (TMVA_RNN_Classification (in_directory no_files cpu_env) 1))
   \<and> PrepareTrainingAndTestTree [] [] prepareOptions
        \<in> set (snd (TMVA_RNN_Classification (in_directory no_files cpu_env) 1))
   \<and> (\<exists>sg bk. loaded_trees point_source 0 no_files = (Some sg, Some bk)
         \<and> length (entries sg) = 10000 \<and> length (entries bk) = 10000)
   \<and> option_value ''nTrain_Signal'' (split_on CHR '':'' prepareOptions) = Some ''8000''
   \<and> option_value ''SplitSeed'' (split_on CHR '':'' prepareOptions) = Some ''100''
   \<and> option_value ''LearningRate'' (split_on CHR '','' trainingString1) = Some ''1e-3''"
  using split_and_training_configuration [of cpu_env no_files 1 point_source 0]
  by (auto simp add: cpu_env_def no_files_def nTotEvts_def ntime_def ninput_def)

text \<open>C9 as stated fails: in the directory left by an earlier call of the generator with
  20000 events, the orchestrator generates nothing, loads 20000 events of each class and
  still asks for 8000 training events of each, which is not 80 percent of them.\<close>

theorem split_of_an_earlier_file:
  "inputFile_opens cpu_env
   \<and> earlier_run inputFileName = Some (tfile (MakeTimeData_body point_source 0 20000 10 30))
   \<and> Call_MakeTimeData nTotEvts ntime ninput
        \<notin> set (snd (TMVA_RNN_Classification (in_directory earlier_run cpu_env) 1))
   \<and> PrepareTrainingAndTestTree [] [] prepareOptions
        \<in> set (snd (TMVA_RNN_Classification (in_directory earlier_run cpu_env) 1))
   \<and> option_value ''nTrain_Signal'' (split_on CHR '':'' prepareOptions) = Some ''8000''
   \<and> option_value ''nTrain_Background'' (split_on CHR '':'' prepareOptions) = Some ''8000''
   \<and> loaded_trees point_source 0 earlier_run
        = (Some (sgn (MakeTimeData_body point_source 0 20000 10 30)),
           Some (bkg (MakeTimeData_body point_source 0 20000 10 30)))
   \<and> length (entries (sgn (MakeTimeData_body point_source 0 20000 10 30))) = 20000
   \<and> length (entries (bkg (MakeTimeData_body point_source 0 20000 10 30))) = 20000
   \<and> 10 * nTrainSig
        \<noteq> 8 * int (length (entries (sgn (MakeTimeData_body point_source 0 20000 10 30))))
   \<and> 10 * nTrainBkg
        \<noteq> 8 * int (length (entries (bkg (MakeTimeData_body point_source 0 20000 10 30))))"
proof -
  have sizes: "(1::int) < 20000" "(0::int) \<le> 10" "(0::int) \<le> 30" by simp_all
  note g = generated_file [OF sizes, where rs = point_source and ?r0.0 = 0]
  have ok: "inputFile_opens (in_directory earlier_run cpu_env)" "inputFile_opens cpu_env"
    by (simp_all add: in_directory_def cpu_env_def)
  note req = requested_split_and_training [OF ok(1), of 1]
  have nocall: "Call_MakeTimeData nTotEvts ntime ninput
        \<notin> set (snd (TMVA_RNN_Classification (in_directory earlier_run cpu_env) 1))"
    by (simp add: generation_called_iff in_directory_def earlier_run_file)
  have loaded: "loaded_trees point_source 0 earlier_run
        = (Some (sgn (MakeTimeData_body point_source 0 20000 10 30)),
           Some (bkg (MakeTimeData_body point_source 0 20000 10 30)))"
    using loaded_from_existing [where dir = earlier_run and rs = point_source and ?r0.0 = 0, OF earlier_run_file]
    by (simp add: g(3,4))
  have len: "length (entries (sgn (MakeTimeData_body point_source 0 20000 10 30))) = 20000"
    "length (entries (bkg (MakeTimeData_body point_source 0 20000 10 30))) = 20000"
    by (simp_all add: g(5,6))
  have ne: "10 * nTrainSig
        \<noteq> 8 * int (length (entries (sgn (MakeTimeData_body point_source 0 20000 10 30))))"
    "10 * nTrainBkg
        \<noteq> 8 * int (length (entries (bkg (MakeTimeData_body point_source 0 20000 10 30))))"
    by (simp_all add: len nTrainSig_value)
  show ?thesis
    using ok(2) earlier_run_file nocall req loaded len ne by blast
qed

end
